theory Spec2Isabelle
  imports Complex_Main "HOL-Library.Multiset"
begin

section \<open>Data model (shared/schema.ts)\<close>

text \<open>
  JavaScript numbers are modelled as rationals. Where the code computes with numbers that
  come from a request (the slice bounds of \<open>getPosts\<close>, \<open>totalPages\<close>), the result of each
  operation is rounded to binary64 by the environment's \<open>round64\<close>; every other number the
  verified paths compute with is an integer below \<open>2^53\<close> or a literal, where the
  arithmetic of doubles is exact. NaN and the infinities are not values of the type. Instants
  (\<open>Date\<close> values and the ISO-8601 strings of \<open>lastUpdated\<close> and \<open>datePosted\<close>) are
  represented by their milliseconds since the epoch, the value \<open>new Date(s).getTime()\<close>
  that the code compares; a date string that does not parse is outside the model. A
  nullable column (\<open>string | null\<close>) is an \<open>option\<close>.
\<close>

type_synonym number = rat
type_synonym instant = int

record User =
  u_id :: number
  username :: string
  email :: string
  password :: "string option"
  firebaseUid :: string
  avatarUrl :: "string option"
  isPro :: bool
  lastLogin :: "instant option"
  isFirstLogin :: bool

text \<open>\<open>InsertUser\<close>: the user columns without \<open>id\<close>, \<open>isPro\<close>, \<open>lastLogin\<close>,
  \<open>isFirstLogin\<close>; \<open>password\<close> and \<open>avatarUrl\<close> may be missing or null.\<close>

record InsertUser =
  iu_username :: string
  iu_email :: string
  iu_password :: "string option"
  iu_firebaseUid :: string
  iu_avatarUrl :: "string option"

text \<open>\<open>Partial<User>\<close>: each field is either absent (\<open>None\<close>) or carries the new value.\<close>

record UserPatch =
  pu_id :: "number option"
  pu_username :: "string option"
  pu_email :: "string option"
  pu_password :: "string option option"
  pu_firebaseUid :: "string option"
  pu_avatarUrl :: "string option option"
  pu_isPro :: "bool option"
  pu_lastLogin :: "instant option option"
  pu_isFirstLogin :: "bool option"

record ApiKey =
  k_id :: number
  k_userId :: number
  youtubeKey :: "string option"
  instagramKey :: "string option"
  twitterKey :: "string option"
  facebookKey :: "string option"

text \<open>\<open>InsertApiKey\<close> as produced by \<open>insertApiKeySchema.parse\<close>: \<open>userId\<close> is required;
  a key is absent (\<open>None\<close>), null (\<open>Some None\<close>) or a string (\<open>Some (Some s)\<close>).\<close>

record InsertApiKey =
  ik_userId :: number
  ik_youtubeKey :: "string option option"
  ik_instagramKey :: "string option option"
  ik_twitterKey :: "string option option"
  ik_facebookKey :: "string option option"

record ApiKeyPatch =
  pk_id :: "number option"
  pk_userId :: "number option"
  pk_youtubeKey :: "string option option"
  pk_instagramKey :: "string option option"
  pk_twitterKey :: "string option option"
  pk_facebookKey :: "string option option"

record SocialPost =
  p_id :: string
  p_platform :: string
  title :: string
  thumbnailUrl :: "string option"
  p_views :: number
  likes :: number
  comments :: number
  shares :: number
  datePosted :: instant
  postUrl :: string

text \<open>\<open>ExtendedSocialStats\<close> (services/apiServices.ts) is \<open>SocialStats\<close> with the two
  optional error fields; a plain \<open>SocialStats\<close> value has both of them absent.\<close>

record ExtendedSocialStats =
  platform :: string
  followers :: number
  followersGrowth :: number
  views :: number
  viewsGrowth :: number
  engagement :: number
  engagementGrowth :: number
  posts :: "SocialPost list"
  lastUpdated :: instant
  errorMessage :: "string option"
  isApiError :: "bool option"

section \<open>The in-memory store (storage.ts, class MemStorage)\<close>

text \<open>
  \<open>users\<close> and \<open>socialStats\<close> are only read with \<open>get\<close> and written with \<open>set\<close>, so they
  are maps. \<open>platformApiKeys\<close> is searched with \<open>Array.from(values()).find\<close>, so it is
  an association list in insertion order. The cache key is the template string
  \<open>`${userId}:${platform}:${days}`\<close>; it is represented by the triple it is built from.
  The decimal form of a number has no colon and every key ever stored carries one of the
  four colon-free platform names, so a looked-up string equals a stored one exactly when
  the triples agree. Subscriptions play no part in the statements below and are left out.
\<close>

type_synonym statsKey = "number \<times> string \<times> number"

record MemStorage =
  users :: "number \<rightharpoonup> User"
  platformApiKeys :: "(number \<times> ApiKey) list"
  socialStats :: "statsKey \<rightharpoonup> ExtendedSocialStats"
  currentUserId :: number
  currentApiKeyId :: number

text \<open>
  The outcome of a \<open>fetch\<close> together with the reading of its body: the call or the
  \<open>json()\<close> after it throws \<open>Error(msg)\<close>; or the response is not \<open>ok\<close>, with
  \<open>errorData.error?.message\<close> (\<open>None\<close> when it is missing); or the response is \<open>ok\<close> with a
  body.
\<close>

datatype 'a fetched = Threw string | NotOk "string option" | Ok 'a

text \<open>
  The parts of the YouTube Data API bodies that the adapter reads. A channel item is
  reduced to its \<open>statistics\<close>, whose counters are JSON strings and may be missing (the
  code guards them with \<open>parseInt(...) || 0\<close>). A search item is reduced to the four
  strings read from it, a video item to its \<open>statistics\<close>, which may be missing as a whole
  (\<open>items[index]?.statistics || {...}\<close>) or counter by counter. The \<open>items\<close> array of the
  channel body may be missing (the code tests it); the other two bodies are taken to
  carry their \<open>items\<close> array and the unguarded fields, as the API documents them.
\<close>

record ChannelStatistics =
  ch_subscriberCount :: "string option"
  ch_viewCount :: "string option"
  ch_commentCount :: "string option"

record VideoItem =
  videoId :: string
  v_title :: string
  v_thumbnail :: string
  publishedAt :: instant

record VideoStatistics =
  vd_viewCount :: "string option"
  vd_likeCount :: "string option"
  vd_commentCount :: "string option"

text \<open>
  The environment: the three YouTube calls, \<open>Math.random()\<close>, the clock, and the rounding
  of an exact arithmetic result to the binary64 number the code computes (\<open>round64\<close>).
  The calls, the random source and the clock are indexed by the number of environment
  interactions made so far (\<open>tick\<close>), so that two reads may differ.
\<close>

record env =
  ytChannel :: "nat \<Rightarrow> ChannelStatistics list option fetched"
  ytVideos :: "nat \<Rightarrow> VideoItem list fetched"
  ytVideoStats :: "nat \<Rightarrow> VideoStatistics option list fetched"
  random :: "nat \<Rightarrow> number"
  clock :: "nat \<Rightarrow> instant"
  round64 :: "number \<Rightarrow> number"

record world =
  storage :: MemStorage
  tick :: nat

text \<open>\<open>x || null\<close> on a string column: null, missing and the empty string all give null.\<close>

definition orNull :: "string option \<Rightarrow> string option" where
  "orNull x = (case x of None \<Rightarrow> None | Some s \<Rightarrow> if s = [] then None else Some s)"

definition orNull2 :: "string option option \<Rightarrow> string option" where
  "orNull2 x = (case x of None \<Rightarrow> None | Some y \<Rightarrow> orNull y)"

definition getUser :: "MemStorage \<Rightarrow> number \<Rightarrow> User option" where
  "getUser st i = users st i"

definition createUser :: "env \<Rightarrow> world \<Rightarrow> InsertUser \<Rightarrow> User \<times> world" where
  "createUser e w insertUser =
     (let st = storage w;
          i = currentUserId st;
          now = clock e (tick w);
          user = \<lparr>u_id = i, username = iu_username insertUser, email = iu_email insertUser,
                  password = orNull (iu_password insertUser),
                  firebaseUid = iu_firebaseUid insertUser,
                  avatarUrl = orNull (iu_avatarUrl insertUser),
                  isPro = False, lastLogin = Some now, isFirstLogin = True\<rparr>
      in (user, w\<lparr>storage := st\<lparr>users := (users st)(i \<mapsto> user), currentUserId := i + 1\<rparr>,
                   tick := Suc (tick w)\<rparr>))"

definition applyUserPatch :: "User \<Rightarrow> UserPatch \<Rightarrow> User" where
  "applyUserPatch u d =
     \<lparr>u_id = (case pu_id d of None \<Rightarrow> u_id u | Some v \<Rightarrow> v),
      username = (case pu_username d of None \<Rightarrow> username u | Some v \<Rightarrow> v),
      email = (case pu_email d of None \<Rightarrow> email u | Some v \<Rightarrow> v),
      password = (case pu_password d of None \<Rightarrow> password u | Some v \<Rightarrow> v),
      firebaseUid = (case pu_firebaseUid d of None \<Rightarrow> firebaseUid u | Some v \<Rightarrow> v),
      avatarUrl = (case pu_avatarUrl d of None \<Rightarrow> avatarUrl u | Some v \<Rightarrow> v),
      isPro = (case pu_isPro d of None \<Rightarrow> isPro u | Some v \<Rightarrow> v),
      lastLogin = (case pu_lastLogin d of None \<Rightarrow> lastLogin u | Some v \<Rightarrow> v),
      isFirstLogin = (case pu_isFirstLogin d of None \<Rightarrow> isFirstLogin u | Some v \<Rightarrow> v)\<rparr>"

definition updateUser :: "MemStorage \<Rightarrow> number \<Rightarrow> UserPatch \<Rightarrow> User option \<times> MemStorage" where
  "updateUser st i d =
     (case users st i of
        None \<Rightarrow> (None, st)
      | Some user \<Rightarrow>
          (let updatedUser = applyUserPatch user d
           in (Some updatedUser, st\<lparr>users := (users st)(i \<mapsto> updatedUser)\<rparr>)))"

definition noUserPatch :: UserPatch where
  "noUserPatch = \<lparr>pu_id = None, pu_username = None, pu_email = None, pu_password = None,
     pu_firebaseUid = None, pu_avatarUrl = None, pu_isPro = None, pu_lastLogin = None,
     pu_isFirstLogin = None\<rparr>"

text \<open>\<open>Map.prototype.set\<close>: an existing key keeps its position, a new key goes last.\<close>

fun mapSet :: "('k \<times> 'v) list \<Rightarrow> 'k \<Rightarrow> 'v \<Rightarrow> ('k \<times> 'v) list" where
  "mapSet [] k v = [(k, v)]"
| "mapSet ((k', v') # m) k v = (if k' = k then (k, v) # m else (k', v') # mapSet m k v)"

definition getApiKeys :: "MemStorage \<Rightarrow> number \<Rightarrow> ApiKey option" where
  "getApiKeys st userId = find (\<lambda>apiKey. k_userId apiKey = userId) (map snd (platformApiKeys st))"

definition saveApiKeys :: "MemStorage \<Rightarrow> InsertApiKey \<Rightarrow> ApiKey \<times> MemStorage" where
  "saveApiKeys st insertApiKey =
     (let i = currentApiKeyId st;
          apiKey = \<lparr>k_id = i, k_userId = ik_userId insertApiKey,
                    youtubeKey = orNull2 (ik_youtubeKey insertApiKey),
                    instagramKey = orNull2 (ik_instagramKey insertApiKey),
                    twitterKey = orNull2 (ik_twitterKey insertApiKey),
                    facebookKey = orNull2 (ik_facebookKey insertApiKey)\<rparr>
      in (apiKey, st\<lparr>platformApiKeys := mapSet (platformApiKeys st) i apiKey,
                      currentApiKeyId := i + 1\<rparr>))"

definition applyApiKeyPatch :: "ApiKey \<Rightarrow> ApiKeyPatch \<Rightarrow> ApiKey" where
  "applyApiKeyPatch k d =
     \<lparr>k_id = (case pk_id d of None \<Rightarrow> k_id k | Some v \<Rightarrow> v),
      k_userId = (case pk_userId d of None \<Rightarrow> k_userId k | Some v \<Rightarrow> v),
      youtubeKey = (case pk_youtubeKey d of None \<Rightarrow> youtubeKey k | Some v \<Rightarrow> v),
      instagramKey = (case pk_instagramKey d of None \<Rightarrow> instagramKey k | Some v \<Rightarrow> v),
      twitterKey = (case pk_twitterKey d of None \<Rightarrow> twitterKey k | Some v \<Rightarrow> v),
      facebookKey = (case pk_facebookKey d of None \<Rightarrow> facebookKey k | Some v \<Rightarrow> v)\<rparr>"

definition updateApiKeys :: "MemStorage \<Rightarrow> number \<Rightarrow> ApiKeyPatch \<Rightarrow> ApiKey option \<times> MemStorage" where
  "updateApiKeys st userId d =
     (case find (\<lambda>apiKey. k_userId apiKey = userId) (map snd (platformApiKeys st)) of
        None \<Rightarrow> (None, st)
      | Some apiKey \<Rightarrow>
          (let updatedApiKey = applyApiKeyPatch apiKey d
           in (Some updatedApiKey,
               st\<lparr>platformApiKeys := mapSet (platformApiKeys st) (k_id apiKey) updatedApiKey\<rparr>)))"

section \<open>Platform adapters and their factory (services/apiServices.ts)\<close>

text \<open>
  An adapter call either resolves with a stats object (\<open>Inr\<close>) or rejects with an error,
  represented by its message (\<open>Inl\<close>). Every adapter reaches the store through the
  module-level singleton \<open>storage\<close>; the store's \<open>getPlatformStats\<close> is passed in as
  \<open>self\<close>. A result \<open>None\<close> means that the call has not returned.
\<close>

type_synonym storeRead =
  "world \<Rightarrow> number \<Rightarrow> string \<Rightarrow> number \<Rightarrow> (ExtendedSocialStats option \<times> world) option"

type_synonym adapterResult = "((string + ExtendedSocialStats) \<times> world) option"

text \<open>The \<open>catch\<close> block shared, up to the platform literal, by the four adapters.\<close>

definition catchBlock :: "env \<Rightarrow> storeRead \<Rightarrow> world \<Rightarrow> number \<Rightarrow> string \<Rightarrow> number \<Rightarrow> string \<Rightarrow> adapterResult" where
  "catchBlock e self w userId p days err =
     (case self w userId p days of
        None \<Rightarrow> None
      | Some (None, w') \<Rightarrow> Some (Inl err, w')
      | Some (Some existingData, w') \<Rightarrow>
          Some (Inr (existingData\<lparr>lastUpdated := clock e (tick w'),
                                   errorMessage := Some err,
                                   isApiError := Some True\<rparr>),
                w'\<lparr>tick := Suc (tick w')\<rparr>))"

text \<open>
  \<open>parseInt(x, 10)\<close> on a string: leading white space, an optional sign, then the longest
  run of decimal digits; NaN (\<open>None\<close>) when there is no digit. Only ASCII white space is
  recognised, and the result is not rounded. \<open>parseIntOr0\<close> is \<open>parseInt(x, 10) || 0\<close> for
  a field \<open>x\<close> that may be missing.
\<close>

definition isWhiteSpace :: "char \<Rightarrow> bool" where
  "isWhiteSpace c = (c \<in> set [CHR '' '', CHR 0x09, CHR 0x0A, CHR 0x0B, CHR 0x0C, CHR 0x0D])"

definition isDigit :: "char \<Rightarrow> bool" where
  "isDigit c = (c \<in> set ''0123456789'')"

definition digitValue :: "char \<Rightarrow> nat" where
  "digitValue c = of_char c - 48"

definition parseInt :: "string \<Rightarrow> number option" where
  "parseInt s =
     (let s1 = dropWhile isWhiteSpace s;
          negative = (case s1 of [] \<Rightarrow> False | c # r \<Rightarrow> c = CHR ''-'');
          s2 = (case s1 of [] \<Rightarrow> [] | c # r \<Rightarrow> if c = CHR ''-'' \<or> c = CHR ''+'' then r else s1);
          ds = takeWhile isDigit s2;
          n = of_nat (foldl (\<lambda>a c. 10 * a + digitValue c) 0 ds)
      in if ds = [] then None else Some (if negative then - n else n))"

definition parseIntOr0 :: "string option \<Rightarrow> number" where
  "parseIntOr0 x =
     (case x of
        None \<Rightarrow> 0
      | Some s \<Rightarrow> (case parseInt s of None \<Rightarrow> 0 | Some n \<Rightarrow> n))"

text \<open>\<open>Math.floor(Math.random() * 10) - 2\<close>.\<close>

definition getRandomGrowth :: "env \<Rightarrow> nat \<Rightarrow> number" where
  "getRandomGrowth e n = of_int \<lfloor>round64 e (random e n * 10)\<rfloor> - 2"

text \<open>The statistics used for a video without any: \<open>{viewCount: 0, likeCount: 0,
  commentCount: 0}\<close>, whose numbers \<open>parseInt\<close> reads through their string form.\<close>

definition noVideoStatistics :: VideoStatistics where
  "noVideoStatistics = \<lparr>vd_viewCount = Some ''0'', vd_likeCount = Some ''0'', vd_commentCount = Some ''0''\<rparr>"

definition youtubePost :: "VideoStatistics option list \<Rightarrow> nat \<times> VideoItem \<Rightarrow> SocialPost" where
  "youtubePost videoStatsItems ix =
     (let index = fst ix; item = snd ix;
          videoStats = (if index < length videoStatsItems
                        then (case videoStatsItems ! index of None \<Rightarrow> noVideoStatistics | Some st \<Rightarrow> st)
                        else noVideoStatistics)
      in \<lparr>p_id = videoId item, p_platform = ''youtube'', title = v_title item,
          thumbnailUrl = Some (v_thumbnail item),
          p_views = parseIntOr0 (vd_viewCount videoStats),
          likes = parseIntOr0 (vd_likeCount videoStats),
          comments = parseIntOr0 (vd_commentCount videoStats),
          shares = 0,
          datePosted = publishedAt item,
          postUrl = ''https://youtube.com/watch?v='' @ videoId item\<rparr>)"

definition youtubePosts :: "VideoItem list \<Rightarrow> VideoStatistics option list \<Rightarrow> SocialPost list" where
  "youtubePosts videoItems videoStatsItems =
     map (youtubePost videoStatsItems) (zip [0..<length videoItems] videoItems)"

definition apiErrorMessage :: "string option \<Rightarrow> string" where
  "apiErrorMessage m =
     ''YouTube API error: '' @ (case m of None \<Rightarrow> ''Unknown error''
                                | Some x \<Rightarrow> if x = [] then ''Unknown error'' else x)"

text \<open>
  The body of the YouTube adapter's \<open>try\<close> after the key check, started at tick \<open>t\<close>: the
  result (\<open>Inl\<close> the message of what was thrown) and the tick afterwards. The two
  \<open>new Date()\<close> of the date range take ticks \<open>t\<close> and \<open>t + 1\<close>, the three calls the next
  three, then come three draws of \<open>Math.random()\<close> and the \<open>new Date()\<close> of \<open>lastUpdated\<close>.
\<close>

definition youtubeLive :: "env \<Rightarrow> nat \<Rightarrow> (string + ExtendedSocialStats) \<times> nat" where
  "youtubeLive e t =
     (case ytChannel e (t + 2) of
        Threw m \<Rightarrow> (Inl m, t + 3)
      | NotOk m \<Rightarrow> (Inl (apiErrorMessage m), t + 3)
      | Ok channelItems \<Rightarrow>
          (case channelItems of
             None \<Rightarrow> (Inl ''Channel not found'', t + 3)
           | Some [] \<Rightarrow> (Inl ''Channel not found'', t + 3)
           | Some (statistics # others) \<Rightarrow>
               (case ytVideos e (t + 3) of
                  Threw m \<Rightarrow> (Inl m, t + 4)
                | NotOk m \<Rightarrow> (Inl (apiErrorMessage m), t + 4)
                | Ok videoItems \<Rightarrow>
                    (case ytVideoStats e (t + 4) of
                       Threw m \<Rightarrow> (Inl m, t + 5)
                     | NotOk m \<Rightarrow> (Inl (apiErrorMessage m), t + 5)
                     | Ok videoStatsItems \<Rightarrow>
                         (Inr \<lparr>platform = ''youtube'',
                               followers = parseIntOr0 (ch_subscriberCount statistics),
                               followersGrowth = getRandomGrowth e (t + 5),
                               views = parseIntOr0 (ch_viewCount statistics),
                               viewsGrowth = getRandomGrowth e (t + 6),
                               engagement = parseIntOr0 (ch_commentCount statistics),
                               engagementGrowth = getRandomGrowth e (t + 7),
                               posts = youtubePosts videoItems videoStatsItems,
                               lastUpdated = clock e (t + 8),
                               errorMessage = None, isApiError = None\<rparr>,
                          t + 9)))))"

definition YouTubeApiService_getPlatformStats :: "env \<Rightarrow> storeRead \<Rightarrow> world \<Rightarrow> number \<Rightarrow> string \<Rightarrow> number \<Rightarrow> adapterResult" where
  "YouTubeApiService_getPlatformStats e self w userId apiKey days =
     (if apiKey = [] then catchBlock e self w userId ''youtube'' days ''YouTube API key is required''
      else (case youtubeLive e (tick w) of
              (Inl err, t') \<Rightarrow> catchBlock e self (w\<lparr>tick := t'\<rparr>) userId ''youtube'' days err
            | (Inr s, t') \<Rightarrow> Some (Inr s, w\<lparr>tick := t'\<rparr>)))"

definition TwitterApiService_getPlatformStats :: "env \<Rightarrow> storeRead \<Rightarrow> world \<Rightarrow> number \<Rightarrow> string \<Rightarrow> number \<Rightarrow> adapterResult" where
  "TwitterApiService_getPlatformStats e self w userId apiKey days =
     (if apiKey = [] then catchBlock e self w userId ''twitter'' days ''Twitter API key is required''
      else catchBlock e self w userId ''twitter'' days ''Twitter API implementation in progress'')"

definition InstagramApiService_getPlatformStats :: "env \<Rightarrow> storeRead \<Rightarrow> world \<Rightarrow> number \<Rightarrow> string \<Rightarrow> number \<Rightarrow> adapterResult" where
  "InstagramApiService_getPlatformStats e self w userId apiKey days =
     (if apiKey = [] then catchBlock e self w userId ''instagram'' days ''Instagram API key is required''
      else catchBlock e self w userId ''instagram'' days ''Instagram API implementation in progress'')"

definition FacebookApiService_getPlatformStats :: "env \<Rightarrow> storeRead \<Rightarrow> world \<Rightarrow> number \<Rightarrow> string \<Rightarrow> number \<Rightarrow> adapterResult" where
  "FacebookApiService_getPlatformStats e self w userId apiKey days =
     (if apiKey = [] then catchBlock e self w userId ''facebook'' days ''Facebook API key is required''
      else catchBlock e self w userId ''facebook'' days ''Facebook API implementation in progress'')"

datatype service = YouTubeApiService | TwitterApiService | InstagramApiService | FacebookApiService

definition getService :: "string \<Rightarrow> string + service" where
  "getService p =
     (if p = ''youtube'' then Inr YouTubeApiService
      else if p = ''twitter'' then Inr TwitterApiService
      else if p = ''instagram'' then Inr InstagramApiService
      else if p = ''facebook'' then Inr FacebookApiService
      else Inl (''Unsupported platform: '' @ p))"

fun service_getPlatformStats :: "service \<Rightarrow> env \<Rightarrow> storeRead \<Rightarrow> world \<Rightarrow> number \<Rightarrow> string \<Rightarrow> number \<Rightarrow> adapterResult" where
  "service_getPlatformStats YouTubeApiService = YouTubeApiService_getPlatformStats"
| "service_getPlatformStats TwitterApiService = TwitterApiService_getPlatformStats"
| "service_getPlatformStats InstagramApiService = InstagramApiService_getPlatformStats"
| "service_getPlatformStats FacebookApiService = FacebookApiService_getPlatformStats"

section \<open>Reading statistics (MemStorage.getPlatformStats and its users)\<close>

text \<open>JavaScript truthiness of a nullable string: neither null/undefined nor empty.\<close>

definition truthy :: "string option \<Rightarrow> bool" where
  "truthy x = (case x of None \<Rightarrow> False | Some s \<Rightarrow> s \<noteq> [])"

text \<open>Property access \<open>apiKeys[name]\<close> for a name of the form \<open>`${platform}Key`\<close>: the object
  has the four key columns (and \<open>id\<close>, \<open>userId\<close>, whose names do not end in \<open>Key\<close>).\<close>

definition apiKeyField :: "ApiKey \<Rightarrow> string \<Rightarrow> string option" where
  "apiKeyField k name =
     (if name = ''youtubeKey'' then youtubeKey k
      else if name = ''instagramKey'' then instagramKey k
      else if name = ''twitterKey'' then twitterKey k
      else if name = ''facebookKey'' then facebookKey k
      else None)"

text \<open>\<open>apiKeys?.[`${platform}Key`]\<close>.\<close>

definition credentialFor :: "MemStorage \<Rightarrow> number \<Rightarrow> string \<Rightarrow> string option" where
  "credentialFor st userId p =
     (case getApiKeys st userId of None \<Rightarrow> None | Some k \<Rightarrow> apiKeyField k (p @ ''Key''))"

definition cacheSet :: "world \<Rightarrow> statsKey \<Rightarrow> ExtendedSocialStats \<Rightarrow> world" where
  "cacheSet w key s = w\<lparr>storage := (storage w)\<lparr>socialStats := (socialStats (storage w))(key \<mapsto> s)\<rparr>\<rparr>"

text \<open>
  The store and the adapters call each other: the store calls the adapter when a
  credential is on file, and the adapter's \<open>catch\<close> block calls the store again. The first
  argument bounds the number of nested entries into the store; \<open>None\<close> says that the call
  has not returned within that bound.
\<close>

primrec getPlatformStats :: "env \<Rightarrow> nat \<Rightarrow> storeRead" where
  "getPlatformStats e 0 = (\<lambda>w userId p days. None)"
| "getPlatformStats e (Suc n) = (\<lambda>w userId p days.
     (let apiKey = credentialFor (storage w) userId p;
          key = (userId, p, days)
      in if truthy apiKey then
           (case getService p of
              Inl err \<Rightarrow> Some (socialStats (storage w) key, w)
            | Inr apiService \<Rightarrow>
                (case service_getPlatformStats apiService e (getPlatformStats e n) w userId
                        (case apiKey of None \<Rightarrow> [] | Some a \<Rightarrow> a) days of
                   None \<Rightarrow> None
                 | Some (Inl err, w') \<Rightarrow> Some (socialStats (storage w') key, w')
                 | Some (Inr realTimeStats, w') \<Rightarrow>
                     Some (Some realTimeStats, cacheSet w' key realTimeStats)))
         else Some (socialStats (storage w) key, w)))"

definition allPlatforms :: "string list" where
  "allPlatforms = [''youtube'', ''instagram'', ''twitter'', ''facebook'']"

text \<open>\<open>apiKeys && !!apiKeys[`${platform}Key`]\<close>: undefined when the user has no credential set.\<close>

definition hasConnected :: "ApiKey option \<Rightarrow> string \<Rightarrow> bool option" where
  "hasConnected apiKeys p =
     (case apiKeys of None \<Rightarrow> None | Some k \<Rightarrow> Some (truthy (apiKeyField k (p @ ''Key''))))"

record StatsWithConnectionInfo =
  sc_stats :: ExtendedSocialStats
  sc_isConnected :: "bool option"

fun allStatsLoop :: "env \<Rightarrow> nat \<Rightarrow> ApiKey option \<Rightarrow> number \<Rightarrow> number \<Rightarrow> string list \<Rightarrow>
    StatsWithConnectionInfo list \<Rightarrow> world \<Rightarrow> (StatsWithConnectionInfo list \<times> world) option" where
  "allStatsLoop e fuel apiKeys userId days [] stats w = Some (stats, w)"
| "allStatsLoop e fuel apiKeys userId days (p # ps) stats w =
     (case getPlatformStats e fuel w userId p days of
        None \<Rightarrow> None
      | Some (None, w') \<Rightarrow> allStatsLoop e fuel apiKeys userId days ps stats w'
      | Some (Some platformStats, w') \<Rightarrow>
          allStatsLoop e fuel apiKeys userId days ps
            (stats @ [\<lparr>sc_stats = platformStats, sc_isConnected = hasConnected apiKeys p\<rparr>]) w')"

definition getAllPlatformStats :: "env \<Rightarrow> nat \<Rightarrow> world \<Rightarrow> number \<Rightarrow> number \<Rightarrow>
    (StatsWithConnectionInfo list \<times> world) option" where
  "getAllPlatformStats e fuel w userId days =
     allStatsLoop e fuel (getApiKeys (storage w) userId) userId days allPlatforms [] w"

record PostWithConnectionInfo =
  pc_post :: SocialPost
  pc_isConnected :: "bool option"

fun gatherPosts :: "env \<Rightarrow> nat \<Rightarrow> ApiKey option \<Rightarrow> number \<Rightarrow> number \<Rightarrow> string list \<Rightarrow>
    PostWithConnectionInfo list \<Rightarrow> world \<Rightarrow> (PostWithConnectionInfo list \<times> world) option" where
  "gatherPosts e fuel apiKeys userId days [] allPosts w = Some (allPosts, w)"
| "gatherPosts e fuel apiKeys userId days (p # ps) allPosts w =
     (case getPlatformStats e fuel w userId p days of
        None \<Rightarrow> None
      | Some (None, w') \<Rightarrow> gatherPosts e fuel apiKeys userId days ps allPosts w'
      | Some (Some stats, w') \<Rightarrow>
          gatherPosts e fuel apiKeys userId days ps
            (allPosts @ map (\<lambda>post. \<lparr>pc_post = post, pc_isConnected = hasConnected apiKeys p\<rparr>)
                            (posts stats)) w')"

text \<open>\<open>ToIntegerOrInfinity\<close> on a finite number truncates towards zero; \<open>relIndex\<close> is the
  clamping of a relative index that \<open>Array.prototype.slice\<close> applies to both bounds.\<close>

definition toInteger :: "number \<Rightarrow> int" where
  "toInteger x = (if x < 0 then \<lceil>x\<rceil> else \<lfloor>x\<rfloor>)"

definition relIndex :: "nat \<Rightarrow> int \<Rightarrow> nat" where
  "relIndex len r = (if r < 0 then nat (max (int len + r) 0) else min (nat r) len)"

definition slice :: "'a list \<Rightarrow> number \<Rightarrow> number \<Rightarrow> 'a list" where
  "slice xs start end =
     (let len = length xs;
          k = relIndex len (toInteger start);
          final = relIndex len (toInteger end)
      in take (final - k) (drop k xs))"

text \<open>\<open>allPosts.sort((a, b) => time(b) - time(a))\<close>: a stable sort, newest first.\<close>

definition sortNewestFirst :: "PostWithConnectionInfo list \<Rightarrow> PostWithConnectionInfo list" where
  "sortNewestFirst allPosts = sort_key (\<lambda>a. - datePosted (pc_post a)) allPosts"

record PostsResult =
  r_posts :: "PostWithConnectionInfo list"
  r_total :: nat

text \<open>\<open>startIndex = (page - 1) * limit\<close> and \<open>endIndex = startIndex + limit\<close> are three
  operations on doubles, each rounded: for \<open>page = 1.4\<close> and \<open>limit = 5\<close> the product is
  the double just below 2, and the slice starts at index 1.\<close>

definition getPosts :: "env \<Rightarrow> nat \<Rightarrow> world \<Rightarrow> number \<Rightarrow> string \<Rightarrow> number \<Rightarrow> number \<Rightarrow> number \<Rightarrow>
    (PostsResult \<times> world) option" where
  "getPosts e fuel w userId p days page limit =
     (let apiKeys = getApiKeys (storage w) userId;
          platforms = (if p = ''all'' then allPlatforms else [p])
      in case gatherPosts e fuel apiKeys userId days platforms [] w of
           None \<Rightarrow> None
         | Some (allPosts, w') \<Rightarrow>
             (let sorted = sortNewestFirst allPosts;
                  startIndex = round64 e (round64 e (page - 1) * limit);
                  endIndex = round64 e (startIndex + limit)
              in Some (\<lparr>r_posts = slice sorted startIndex endIndex, r_total = length sorted\<rparr>, w')))"

section \<open>Seeding (MemStorage constructor and initializeSampleData)\<close>

text \<open>
  The four seven-day sample entries of user 1, as the literal of \<open>initializeSampleData\<close>
  gives them; the argument is the value of \<open>new Date().toISOString()\<close> read while the
  literal is built.
\<close>

definition sampleYoutube :: "instant \<Rightarrow> ExtendedSocialStats" where
  "sampleYoutube now =
     \<lparr>platform = ''youtube'', followers = 78200, followersGrowth = 12/10,
      views = 1200000, viewsGrowth = 35/10, engagement = 25600, engagementGrowth = 47/10,
      posts =
        [\<lparr>p_id = ''yt1'', p_platform = ''youtube'',
          title = ''How to Increase Your Social Media Engagement in 2023'',
          thumbnailUrl = Some ''https://via.placeholder.com/56x40'',
          p_views = 24800, likes = 1200, comments = 156, shares = 86,
          datePosted = 1686528000000,
          postUrl = ''https://youtube.com/watch?v=example1''\<rparr>,
         \<lparr>p_id = ''yt2'', p_platform = ''youtube'',
          title = ''10 Social Media Trends for 2023'',
          thumbnailUrl = Some ''https://via.placeholder.com/56x40'',
          p_views = 18500, likes = 950, comments = 120, shares = 65,
          datePosted = 1686355200000,
          postUrl = ''https://youtube.com/watch?v=example2''\<rparr>],
      lastUpdated = now, errorMessage = None, isApiError = None\<rparr>"

definition sampleInstagram :: "instant \<Rightarrow> ExtendedSocialStats" where
  "sampleInstagram now =
     \<lparr>platform = ''instagram'', followers = 45800, followersGrowth = 24/10,
      views = 230000, viewsGrowth = 56/10, engagement = 18900, engagementGrowth = 32/10,
      posts =
        [\<lparr>p_id = ''ig1'', p_platform = ''instagram'',
          title = ''New product launch! Check out our summer collection #fashion #style'',
          thumbnailUrl = Some ''https://via.placeholder.com/56x40'',
          p_views = 8400, likes = 945, comments = 42, shares = 0,
          datePosted = 1686355200000,
          postUrl = ''https://instagram.com/p/example1''\<rparr>,
         \<lparr>p_id = ''ig2'', p_platform = ''instagram'',
          title = ''Behind the scenes at our latest photoshoot #behindthescenes'',
          thumbnailUrl = Some ''https://via.placeholder.com/56x40'',
          p_views = 6200, likes = 720, comments = 38, shares = 0,
          datePosted = 1686182400000,
          postUrl = ''https://instagram.com/p/example2''\<rparr>],
      lastUpdated = now, errorMessage = None, isApiError = None\<rparr>"

definition sampleTwitter :: "instant \<Rightarrow> ExtendedSocialStats" where
  "sampleTwitter now =
     \<lparr>platform = ''twitter'', followers = 22100, followersGrowth = 18/10,
      views = 238000, viewsGrowth = - 21/10, engagement = 5600, engagementGrowth = 8/10,
      posts =
        [\<lparr>p_id = ''tw1'', p_platform = ''twitter'',
          title = ''We're excited to announce our partnership with @techcompany to bring you even better social analytics! #announcement'',
          thumbnailUrl = None,
          p_views = 12300, likes = 248, comments = 32, shares = 68,
          datePosted = 1686182400000,
          postUrl = ''https://twitter.com/username/status/example1''\<rparr>,
         \<lparr>p_id = ''tw2'', p_platform = ''twitter'',
          title = ''What's your favorite social media platform? Let us know in the comments below! #poll'',
          thumbnailUrl = None,
          p_views = 8900, likes = 180, comments = 124, shares = 23,
          datePosted = 1686096000000,
          postUrl = ''https://twitter.com/username/status/example2''\<rparr>],
      lastUpdated = now, errorMessage = None, isApiError = None\<rparr>"

definition sampleFacebook :: \<open>instant \<Rightarrow> ExtendedSocialStats\<close> where
  \<open>sampleFacebook now =
     \<lparr>platform = ''facebook'', followers = 15400, followersGrowth = 9/10,
      views = 42800, viewsGrowth = 38/10, engagement = 6100, engagementGrowth = 21/10,
      posts =
        [\<lparr>p_id = ''fb1'', p_platform = ''facebook'',
          title = ''Join us for our upcoming webinar on "Social Media Trends for 2023"! Register now.'',
          thumbnailUrl = Some ''https://via.placeholder.com/56x40'',
          p_views = 5600, likes = 124, comments = 36, shares = 18,
          datePosted = 1686009600000,
          postUrl = ''https://facebook.com/posts/example1''\<rparr>,
         \<lparr>p_id = ''fb2'', p_platform = ''facebook'',
          title = ''Check out our latest blog post on maximizing your social media ROI!'',
          thumbnailUrl = Some ''https://via.placeholder.com/56x40'',
          p_views = 4200, likes = 98, comments = 28, shares = 15,
          datePosted = 1685923200000,
          postUrl = ''https://facebook.com/posts/example2''\<rparr>],
      lastUpdated = now, errorMessage = None, isApiError = None\<rparr>\<close>

definition sampleData :: "env \<Rightarrow> (statsKey \<times> ExtendedSocialStats) list" where
  "sampleData e =
     [((1, ''youtube'', 7), sampleYoutube (clock e 0)),
      ((1, ''instagram'', 7), sampleInstagram (clock e 1)),
      ((1, ''twitter'', 7), sampleTwitter (clock e 2)),
      ((1, ''facebook'', 7), sampleFacebook (clock e 3))]"

text \<open>
  The thirty-day entries are made from a deep copy of each seven-day entry by scaling its
  counters with floating-point factors (4.5, 4.2, 0.8, 0.7, 0.75), flooring, and shifting
  post dates in local time. That derivation is taken as the parameter \<open>scale30\<close>; the entry
  is stored under the key with \<open>:7\<close> replaced by \<open>:30\<close>. The seven-day entries are
  written afterwards.
\<close>

definition setAll :: "('k \<times> 'v) list \<Rightarrow> ('k \<rightharpoonup> 'v) \<Rightarrow> ('k \<rightharpoonup> 'v)" where
  "setAll kvs m = fold (\<lambda>kv m'. m'(fst kv \<mapsto> snd kv)) kvs m"

definition initializeSampleData :: "env \<Rightarrow> (ExtendedSocialStats \<Rightarrow> ExtendedSocialStats) \<Rightarrow>
    (statsKey \<rightharpoonup> ExtendedSocialStats)" where
  "initializeSampleData e scale30 =
     (let thirtyDayData =
            map (\<lambda>kv. ((fst (fst kv), fst (snd (fst kv)), 30), scale30 (snd kv))) (sampleData e)
      in setAll (sampleData e) (setAll thirtyDayData Map.empty))"

definition newMemStorage :: "env \<Rightarrow> (ExtendedSocialStats \<Rightarrow> ExtendedSocialStats) \<Rightarrow> world" where
  "newMemStorage e scale30 =
     \<lparr>storage = \<lparr>users = Map.empty, platformApiKeys = [],
                  socialStats = initializeSampleData e scale30,
                  currentUserId = 1, currentApiKeyId = 1\<rparr>,
      tick = 4\<rparr>"

section \<open>Request layer (routes.ts)\<close>

text \<open>
  A numeric query parameter is represented by the value of \<open>Number(req.query.x)\<close>:
  \<open>None\<close> is NaN (the parameter is absent or not numeric), \<open>Some r\<close> a finite number.
  \<open>numberOr\<close> is \<open>Number(req.query.x) || d\<close>: NaN and 0 are falsy. The string-valued
  \<open>platform\<close> parameter is \<open>None\<close> when absent. A response is its status and its JSON
  body; a handler whose store call has not returned has no response (\<open>None\<close>).
\<close>

definition numberOr :: "number option \<Rightarrow> number \<Rightarrow> number" where
  "numberOr x d = (case x of None \<Rightarrow> d | Some r \<Rightarrow> if r = 0 then d else r)"

record Pagination =
  pg_page :: number
  pg_limit :: number
  pg_total :: nat
  pg_totalPages :: int

datatype body =
    Message string
  | UpgradeMessage string bool
  | StatsBody ExtendedSocialStats
  | AllStatsBody "StatsWithConnectionInfo list"
  | PostsBody "PostWithConnectionInfo list" Pagination
  | ApiKeyBody ApiKey

type_synonym response = "nat \<times> body"

record StatsQuery =
  q_userId :: "number option"
  q_days :: "number option"
  q_platform :: "string option"

definition get_api_stats :: "env \<Rightarrow> nat \<Rightarrow> world \<Rightarrow> StatsQuery \<Rightarrow> (response \<times> world) option" where
  "get_api_stats e fuel w q =
     (let userId = numberOr (q_userId q) 1;
          days = numberOr (q_days q) 7;
          p = q_platform q
      in case getUser (storage w) userId of
           None \<Rightarrow> Some ((404, Message ''User not found''), w)
         | Some user \<Rightarrow>
             if \<not> isPro user \<and> days > 7
             then Some ((403, UpgradeMessage ''Free users can only access 7 days of data'' True), w)
             else if truthy p \<and> p \<noteq> Some ''all''
             then (case getPlatformStats e fuel w userId (case p of None \<Rightarrow> [] | Some n \<Rightarrow> n) days of
                     None \<Rightarrow> None
                   | Some (None, w') \<Rightarrow>
                       Some ((404, Message (''No stats found for '' @ (case p of None \<Rightarrow> [] | Some n \<Rightarrow> n))), w')
                   | Some (Some s, w') \<Rightarrow> Some ((200, StatsBody s), w'))
             else (case getAllPlatformStats e fuel w userId days of
                     None \<Rightarrow> None
                   | Some (allStats, w') \<Rightarrow> Some ((200, AllStatsBody allStats), w')))"

record PostsQuery =
  pq_userId :: "number option"
  pq_days :: "number option"
  pq_platform :: "string option"
  pq_page :: "number option"
  pq_limit :: "number option"

definition get_api_posts :: "env \<Rightarrow> nat \<Rightarrow> world \<Rightarrow> PostsQuery \<Rightarrow> (response \<times> world) option" where
  "get_api_posts e fuel w q =
     (let userId = numberOr (pq_userId q) 1;
          days = numberOr (pq_days q) 7;
          p = (if truthy (pq_platform q) then (case pq_platform q of None \<Rightarrow> [] | Some n \<Rightarrow> n) else ''all'');
          page = numberOr (pq_page q) 1;
          limit = numberOr (pq_limit q) 10
      in case getUser (storage w) userId of
           None \<Rightarrow> Some ((404, Message ''User not found''), w)
         | Some user \<Rightarrow>
             if \<not> isPro user \<and> days > 7
             then Some ((403, UpgradeMessage ''Free users can only access 7 days of data'' True), w)
             else (case getPosts e fuel w userId p days page limit of
                     None \<Rightarrow> None
                   | Some (r, w') \<Rightarrow>
                       Some ((200, PostsBody (r_posts r)
                                \<lparr>pg_page = page, pg_limit = limit, pg_total = r_total r,
                                 pg_totalPages = \<lceil>round64 e (of_nat (r_total r) / limit)\<rceil>\<rparr>), w')))"

text \<open>The body of \<open>POST /api/apikeys\<close> after \<open>insertApiKeySchema.parse\<close>: a \<open>ZodError\<close> or
  the validated data.\<close>

datatype 'a parsed = ZodError | Parsed 'a

definition asApiKeyPatch :: "InsertApiKey \<Rightarrow> ApiKeyPatch" where
  "asApiKeyPatch v =
     \<lparr>pk_id = None, pk_userId = Some (ik_userId v), pk_youtubeKey = ik_youtubeKey v,
      pk_instagramKey = ik_instagramKey v, pk_twitterKey = ik_twitterKey v,
      pk_facebookKey = ik_facebookKey v\<rparr>"

definition post_api_apikeys :: "world \<Rightarrow> InsertApiKey parsed \<Rightarrow> response \<times> world" where
  "post_api_apikeys w b =
     (case b of
        ZodError \<Rightarrow> ((400, Message ''Invalid API key data''), w)
      | Parsed validatedData \<Rightarrow>
          (case getApiKeys (storage w) (ik_userId validatedData) of
             Some existingApiKeys \<Rightarrow>
               (case updateApiKeys (storage w) (ik_userId validatedData) (asApiKeyPatch validatedData) of
                  (None, st') \<Rightarrow> ((404, Message ''Failed to update API keys''), w\<lparr>storage := st'\<rparr>)
                | (Some updatedApiKeys, st') \<Rightarrow> ((200, ApiKeyBody updatedApiKeys), w\<lparr>storage := st'\<rparr>))
           | None \<Rightarrow>
               (case saveApiKeys (storage w) validatedData of
                  (newApiKeys, st1) \<Rightarrow>
                    (case updateUser st1 (ik_userId validatedData) (noUserPatch\<lparr>pu_isFirstLogin := Some False\<rparr>) of
                       (_, st2) \<Rightarrow> ((201, ApiKeyBody newApiKeys), w\<lparr>storage := st2\<rparr>)))))"

section \<open>Invariants of the store and sample states\<close>

text \<open>Every key of \<open>users\<close> is below the id counter.\<close>

definition usersBelowCounter :: "MemStorage \<Rightarrow> bool" where
  "usersBelowCounter st = (\<forall>k \<in> dom (users st). k < currentUserId st)"

text \<open>Every cache entry is filed under one of the four supported platforms.\<close>

definition supportedKeysOnly :: "MemStorage \<Rightarrow> bool" where
  "supportedKeysOnly st = (\<forall>u p d. socialStats st (u, p, d) \<noteq> None \<longrightarrow> p \<in> set allPlatforms)"




text \<open>Two facts about rounding to binary64: it is monotone, and it leaves the natural
  numbers up to \<open>2^53\<close> as they are.\<close>

definition binary64Rounding :: "env \<Rightarrow> bool" where
  "binary64Rounding e =
     ((\<forall>x y. x \<le> y \<longrightarrow> round64 e x \<le> round64 e y)
      \<and> (\<forall>n::nat. n \<le> 2 ^ 53 \<longrightarrow> round64 e (of_nat n) = of_nat n))"

text \<open>
  Sample environments and states. In \<open>demoEnv\<close> every YouTube call throws; in \<open>liveEnv\<close>
  the calls succeed, the channel has no \<open>viewCount\<close> and its one video has no statistics;
  in \<open>flakyEnv\<close> the channel call throws up to tick 9 and succeeds afterwards. The states
  are the freshly constructed store, the store after the first user has signed up, and
  that store after the user has put a Twitter token, or a YouTube key, on file.
\<close>

definition demoEnv :: env where
  "demoEnv = \<lparr>ytChannel = (\<lambda>n. Threw ''fetch failed''), ytVideos = (\<lambda>n. Threw ''fetch failed''),
     ytVideoStats = (\<lambda>n. Threw ''fetch failed''), random = (\<lambda>n. 0),
     clock = (\<lambda>n. 1700000000000 + int n), round64 = (\<lambda>x. x)\<rparr>"

definition liveEnv :: env where
  "liveEnv = demoEnv
     \<lparr>ytChannel := (\<lambda>n. Ok (Some [\<lparr>ch_subscriberCount = Some ''1000'', ch_viewCount = None,
                                      ch_commentCount = Some ''12''\<rparr>])),
      ytVideos := (\<lambda>n. Ok [\<lparr>videoId = ''v1'', v_title = ''First video'',
                              v_thumbnail = ''https://i.ytimg.com/vi/v1/default.jpg'',
                              publishedAt = 1690000000000\<rparr>]),
      ytVideoStats := (\<lambda>n. Ok [])\<rparr>"


text \<open>What the YouTube adapter assembles from the responses of \<open>liveEnv\<close> when its last
  clock read gives \<open>now\<close>.\<close>

definition liveYoutubeStats :: "instant \<Rightarrow> ExtendedSocialStats" where
  "liveYoutubeStats now =
     \<lparr>platform = ''youtube'', followers = 1000, followersGrowth = - 2,
      views = 0, viewsGrowth = - 2, engagement = 12, engagementGrowth = - 2,
      posts = [\<lparr>p_id = ''v1'', p_platform = ''youtube'', title = ''First video'',
                thumbnailUrl = Some ''https://i.ytimg.com/vi/v1/default.jpg'',
                p_views = 0, likes = 0, comments = 0, shares = 0,
                datePosted = 1690000000000,
                postUrl = ''https://youtube.com/watch?v=v1''\<rparr>],
      lastUpdated = now, errorMessage = None, isApiError = None\<rparr>"

definition demoInsertUser :: InsertUser where
  "demoInsertUser = \<lparr>iu_username = ''ada'', iu_email = ''ada@example.com'', iu_password = None,
     iu_firebaseUid = ''uid-1'', iu_avatarUrl = None\<rparr>"

definition freshWorld :: world where
  "freshWorld = newMemStorage demoEnv (\<lambda>s. s)"

definition world1 :: world where
  "world1 = snd (createUser demoEnv freshWorld demoInsertUser)"

definition twitterToken :: InsertApiKey where
  "twitterToken = \<lparr>ik_userId = 1, ik_youtubeKey = None, ik_instagramKey = None,
     ik_twitterKey = Some (Some ''tok''), ik_facebookKey = None\<rparr>"

definition worldTw :: world where
  "worldTw = snd (post_api_apikeys world1 (Parsed twitterToken))"

text \<open>A credential set for user 1 is posted before user 1 exists; then user 1 signs up.\<close>

definition youtubeToken :: InsertApiKey where
  "youtubeToken = \<lparr>ik_userId = 1, ik_youtubeKey = Some (Some ''k''), ik_instagramKey = None,
     ik_twitterKey = None, ik_facebookKey = None\<rparr>"

definition worldOrphan :: world where
  "worldOrphan = snd (createUser demoEnv (snd (post_api_apikeys freshWorld (Parsed twitterToken))) demoInsertUser)"

text \<open>User 1 puts a YouTube key on file, reads the YouTube statistics once while the calls
  succeed, and then removes the key again.\<close>

definition worldYt :: world where
  "worldYt = snd (post_api_apikeys world1 (Parsed youtubeToken))"

definition worldYtRead :: world where
  "worldYtRead =
     (case getPlatformStats liveEnv 1 worldYt 1 ''youtube'' 7 of None \<Rightarrow> worldYt | Some rw \<Rightarrow> snd rw)"

definition removeYoutubeKey :: InsertApiKey where
  "removeYoutubeKey = \<lparr>ik_userId = 1, ik_youtubeKey = Some None, ik_instagramKey = None,
     ik_twitterKey = None, ik_facebookKey = None\<rparr>"

definition worldDisconnected :: world where
  "worldDisconnected = snd (post_api_apikeys worldYtRead (Parsed removeYoutubeKey))"

text \<open>What a read of the store may change: the cache and the tick, and nothing else; cache
  keys stay within the supported platforms.\<close>

definition readStep :: "world \<Rightarrow> world \<Rightarrow> bool" where
  "readStep w w' =
     (users (storage w') = users (storage w)
      \<and> platformApiKeys (storage w') = platformApiKeys (storage w)
      \<and> currentUserId (storage w') = currentUserId (storage w)
      \<and> currentApiKeyId (storage w') = currentApiKeyId (storage w)
      \<and> (supportedKeysOnly (storage w) \<longrightarrow> supportedKeysOnly (storage w')))"

text \<open>The posts of a cache entry as \<open>getPosts\<close> collects them: each post with the
  connection flag of its platform; nothing for a missing entry.\<close>

definition taggedPosts :: "ApiKey option \<Rightarrow> string \<Rightarrow> ExtendedSocialStats option \<Rightarrow> PostWithConnectionInfo list" where
  "taggedPosts apiKeys p stats =
     (case stats of
        None \<Rightarrow> []
      | Some s \<Rightarrow> map (\<lambda>post. \<lparr>pc_post = post, pc_isConnected = hasConnected apiKeys p\<rparr>) (posts s))"

text \<open>The eight seeded seven-day posts in platform order, and the four seeded entries as
  the aggregate read presents them to a user without a credential set.\<close>

definition seededPosts :: "PostWithConnectionInfo list" where
  "seededPosts =
     map (\<lambda>post. \<lparr>pc_post = post, pc_isConnected = None\<rparr>)
       (posts (sampleYoutube 0) @ posts (sampleInstagram 0) @ posts (sampleTwitter 0)
        @ posts (sampleFacebook 0))"

definition seededStats :: "StatsWithConnectionInfo list" where
  "seededStats =
     [\<lparr>sc_stats = sampleYoutube 1700000000000, sc_isConnected = None\<rparr>,
      \<lparr>sc_stats = sampleInstagram 1700000000001, sc_isConnected = None\<rparr>,
      \<lparr>sc_stats = sampleTwitter 1700000000002, sc_isConnected = None\<rparr>,
      \<lparr>sc_stats = sampleFacebook 1700000000003, sc_isConnected = None\<rparr>]"

text \<open>The states of the store that the constructor and the store's operations can
  produce under environment \<open>e\<close>.\<close>

inductive reachable :: "env \<Rightarrow> world \<Rightarrow> bool" for e :: env where
  constructed: "reachable e (newMemStorage e scale30)"
| created: "reachable e w \<Longrightarrow> reachable e (snd (createUser e w insertUser))"
| user_updated: "reachable e w \<Longrightarrow> reachable e (w\<lparr>storage := snd (updateUser (storage w) i d)\<rparr>)"
| keys_saved: "reachable e w \<Longrightarrow> reachable e (w\<lparr>storage := snd (saveApiKeys (storage w) v)\<rparr>)"
| keys_updated: "reachable e w \<Longrightarrow> reachable e (w\<lparr>storage := snd (updateApiKeys (storage w) u k)\<rparr>)"
| stats_read: "reachable e w \<Longrightarrow> getPlatformStats e n w u p days = Some (r, w') \<Longrightarrow> reachable e w'"

section \<open>Properties\<close>

lemma demoEnv_simps:
  "clock demoEnv n = 1700000000000 + int n"
  "ytChannel demoEnv n = Threw ''fetch failed''"
  "round64 demoEnv x = x"
  by (simp_all add: demoEnv_def)

lemma liveEnv_simps:
  "clock liveEnv n = 1700000000000 + int n"
  "ytChannel liveEnv n = Ok (Some [\<lparr>ch_subscriberCount = Some ''1000'', ch_viewCount = None,
                                     ch_commentCount = Some ''12''\<rparr>])"
  "ytVideos liveEnv n = Ok [\<lparr>videoId = ''v1'', v_title = ''First video'',
                              v_thumbnail = ''https://i.ytimg.com/vi/v1/default.jpg'',
                              publishedAt = 1690000000000\<rparr>]"
  "ytVideoStats liveEnv n = Ok []"
  "random liveEnv n = 0"
  "round64 liveEnv x = x"
  by (simp_all add: liveEnv_def demoEnv_def)


lemma key_suffix: "(p @ ''Key'' = q @ ''Key'') = (p = q)"
  by simp

lemma apiKeyField_unsupported:
  assumes "p \<notin> set allPlatforms" shows "apiKeyField k (p @ ''Key'') = None"
proof -
  have "p @ ''Key'' \<noteq> ''youtube'' @ ''Key''" "p @ ''Key'' \<noteq> ''instagram'' @ ''Key''"
       "p @ ''Key'' \<noteq> ''twitter'' @ ''Key''" "p @ ''Key'' \<noteq> ''facebook'' @ ''Key''"
    using assms unfolding allPlatforms_def key_suffix by auto
  then show ?thesis by (simp add: apiKeyField_def)
qed

lemma credentialFor_unsupported:
  "p \<notin> set allPlatforms \<Longrightarrow> credentialFor st userId p = None"
  by (simp add: credentialFor_def apiKeyField_unsupported split: option.split)

lemma getPlatformStats_no_credential:
  "\<not> truthy (credentialFor (storage w) userId p) \<Longrightarrow>
   getPlatformStats e (Suc n) w userId p days = Some (socialStats (storage w) (userId, p, days), w)"
  by (simp add: Let_def)

lemma getService_simps:
  "getService ''youtube'' = Inr YouTubeApiService"
  "getService ''twitter'' = Inr TwitterApiService"
  "getService ''instagram'' = Inr InstagramApiService"
  "getService ''facebook'' = Inr FacebookApiService"
  by (simp_all add: getService_def)

lemma catchBlock_None: "self w userId p days = None \<Longrightarrow> catchBlock e self w userId p days err = None"
  by (simp add: catchBlock_def)

lemma stub_adapter_never_returns:
  assumes "truthy (credentialFor (storage w) userId p)"
    and "p = ''twitter'' \<or> p = ''instagram'' \<or> p = ''facebook''"
  shows "getPlatformStats e n w userId p days = None"
proof (induction n)
  case 0
  show ?case by simp
next
  case (Suc n)
  have stub: "service_getPlatformStats svc e (getPlatformStats e n) w userId a days = None"
    if "getService p = Inr svc" for svc a
    using that assms(2) Suc
    by (auto simp: getService_simps catchBlock_None TwitterApiService_getPlatformStats_def
        InstagramApiService_getPlatformStats_def FacebookApiService_getPlatformStats_def)
  from assms(2) obtain svc where svc: "getService p = Inr svc"
    by (auto simp: getService_simps)
  show ?case
    using assms(1) svc stub[OF svc] by (simp add: Let_def)
qed

lemma youtubeLive_channel_threw:
  "ytChannel e (t + 2) = Threw m \<Longrightarrow> youtubeLive e t = (Inl m, t + 3)"
  by (simp add: youtubeLive_def)

lemma youtube_adapter_never_returns:
  assumes "truthy (credentialFor (storage w) userId ''youtube'')"
    and "\<forall>k. \<exists>m. ytChannel e k = Threw m"
  shows "getPlatformStats e n w userId ''youtube'' days = None"
  using assms(1)
proof (induction n arbitrary: w)
  case 0
  show ?case by simp
next
  case (Suc n)
  from Suc.prems obtain a where a: "credentialFor (storage w) userId ''youtube'' = Some a" "a \<noteq> []"
    by (auto simp: truthy_def split: option.splits)
  from assms(2) obtain m where "ytChannel e (tick w + 2) = Threw m" by blast
  then have live: "youtubeLive e (tick w) = (Inl m, tick w + 3)"
    by (rule youtubeLive_channel_threw)
  have "truthy (credentialFor (storage (w\<lparr>tick := tick w + 3\<rparr>)) userId ''youtube'')"
    using Suc.prems by simp
  then have "getPlatformStats e n (w\<lparr>tick := tick w + 3\<rparr>) userId ''youtube'' days = None"
    by (rule Suc.IH)
  then have "YouTubeApiService_getPlatformStats e (getPlatformStats e n) w userId a days = None"
    using a live by (simp add: YouTubeApiService_getPlatformStats_def catchBlock_None)
  then show ?case
    using Suc.prems a by (simp add: Let_def getService_simps)
qed

lemma seeded7:
  "socialStats (storage (newMemStorage e sc)) (1, ''youtube'', 7) = Some (sampleYoutube (clock e 0))"
  "socialStats (storage (newMemStorage e sc)) (1, ''instagram'', 7) = Some (sampleInstagram (clock e 1))"
  "socialStats (storage (newMemStorage e sc)) (1, ''twitter'', 7) = Some (sampleTwitter (clock e 2))"
  "socialStats (storage (newMemStorage e sc)) (1, ''facebook'', 7) = Some (sampleFacebook (clock e 3))"
  by (simp_all add: newMemStorage_def initializeSampleData_def setAll_def sampleData_def)

lemma newMemStorage_fields:
  "users (storage (newMemStorage e sc)) = Map.empty"
  "platformApiKeys (storage (newMemStorage e sc)) = []"
  "currentUserId (storage (newMemStorage e sc)) = 1"
  "currentApiKeyId (storage (newMemStorage e sc)) = 1"
  "tick (newMemStorage e sc) = 4"
  by (simp_all add: newMemStorage_def)

lemma createUser_frame:
  "platformApiKeys (storage (snd (createUser e w ins))) = platformApiKeys (storage w)"
  "socialStats (storage (snd (createUser e w ins))) = socialStats (storage w)"
  "currentApiKeyId (storage (snd (createUser e w ins))) = currentApiKeyId (storage w)"
  "currentUserId (storage (snd (createUser e w ins))) = currentUserId (storage w) + 1"
  "tick (snd (createUser e w ins)) = Suc (tick w)"
  "users (storage (snd (createUser e w ins))) = (users (storage w))(currentUserId (storage w) \<mapsto> fst (createUser e w ins))"
  by (simp_all add: createUser_def Let_def)

lemma createUser_result:
  "fst (createUser e w ins) =
     \<lparr>u_id = currentUserId (storage w), username = iu_username ins, email = iu_email ins,
      password = orNull (iu_password ins), firebaseUid = iu_firebaseUid ins,
      avatarUrl = orNull (iu_avatarUrl ins), isPro = False,
      lastLogin = Some (clock e (tick w)), isFirstLogin = True\<rparr>"
  by (simp add: createUser_def Let_def)

lemma world1_facts:
  "platformApiKeys (storage world1) = []"
  "users (storage world1) 1 = Some \<lparr>u_id = 1, username = ''ada'', email = ''ada@example.com'',
     password = None, firebaseUid = ''uid-1'', avatarUrl = None,
     isPro = False, lastLogin = Some 1700000000004, isFirstLogin = True\<rparr>"
  "socialStats (storage world1) = socialStats (storage freshWorld)"
  by (simp_all add: world1_def freshWorld_def createUser_frame createUser_result newMemStorage_fields
      demoInsertUser_def demoEnv_simps orNull_def)

lemma worldTw_facts:
  "platformApiKeys (storage worldTw) = [(1, \<lparr>k_id = 1, k_userId = 1, youtubeKey = None,
      instagramKey = None, twitterKey = Some ''tok'', facebookKey = None\<rparr>)]"
  "socialStats (storage worldTw) = socialStats (storage freshWorld)"
  by (simp_all add: worldTw_def post_api_apikeys_def getApiKeys_def world1_facts saveApiKeys_def
     Let_def updateUser_def twitterToken_def orNull2_def orNull_def world1_def createUser_frame
     freshWorld_def newMemStorage_fields split: prod.split option.split)


lemma world1_credential: "credentialFor (storage world1) userId p = None"
  by (simp add: credentialFor_def getApiKeys_def world1_facts)

lemma worldTw_credential: "credentialFor (storage worldTw) 1 ''twitter'' = Some ''tok''"
  by (simp add: credentialFor_def getApiKeys_def worldTw_facts apiKeyField_def)

text \<open>
  Claim C2 says that a read for a user with a credential on file whose live fetch fails
  returns the cached entry with a fresh \<open>lastUpdated\<close> and the error fields set. On the
  code such a read does not return: with a Twitter token on file and the seeded entry in
  the cache, \<open>getPlatformStats\<close> yields no result for any bound on the nesting, because the
  adapter's \<open>catch\<close> block re-enters the store, which finds the same credential and calls
  the adapter again.
\<close>
theorem degraded_read_never_returns:
  "truthy (credentialFor (storage worldTw) 1 ''twitter'')
   \<and> socialStats (storage worldTw) (1, ''twitter'', 7) = Some (sampleTwitter 1700000000002)
   \<and> getPlatformStats demoEnv fuel worldTw 1 ''twitter'' 7 = None"
proof -
  have c: "truthy (credentialFor (storage worldTw) 1 ''twitter'')"
    by (simp add: worldTw_credential truthy_def)
  have "socialStats (storage worldTw) (1, ''twitter'', 7) = Some (sampleTwitter 1700000000002)"
    by (simp add: worldTw_facts freshWorld_def seeded7 demoEnv_simps)
  moreover have "getPlatformStats demoEnv fuel worldTw 1 ''twitter'' 7 = None"
    by (rule stub_adapter_never_returns[OF c]) simp
  ultimately show ?thesis using c by simp
qed

text \<open>
  Claim C3: for a user with no credential on file for platform \<open>p\<close>, \<open>getPlatformStats\<close>
  returns the entry cached under \<open>(userId, p, days)\<close> as it is and leaves the world
  unchanged, so a repeated call returns the same value.
\<close>
theorem no_credential_read_idempotent:
  assumes "\<not> truthy (credentialFor (storage w) userId p)"
  shows "getPlatformStats e (Suc n) w userId p days
           = Some (socialStats (storage w) (userId, p, days), w)
       \<and> (\<forall>r w'. getPlatformStats e (Suc n) w userId p days = Some (r, w') \<longrightarrow>
              w' = w \<and> getPlatformStats e (Suc m) w' userId p days = Some (r, w'))"
  using assms by (simp add: getPlatformStats_no_credential)

theorem no_credential_read_idempotent_witness:
  "\<not> truthy (credentialFor (storage world1) 1 ''youtube'')
   \<and> getPlatformStats demoEnv (Suc 0) world1 1 ''youtube'' 7
        = Some (Some (sampleYoutube 1700000000000), world1)
   \<and> getPlatformStats demoEnv (Suc 2) world1 1 ''youtube'' 7
        = Some (Some (sampleYoutube 1700000000000), world1)"
proof -
  have h: "\<not> truthy (credentialFor (storage world1) 1 ''youtube'')"
    by (simp add: world1_credential truthy_def)
  have c: "socialStats (storage world1) (1, ''youtube'', 7) = Some (sampleYoutube 1700000000000)"
    by (simp add: world1_facts freshWorld_def seeded7 demoEnv_simps)
  show ?thesis
    using h c no_credential_read_idempotent[OF h, of demoEnv 0 7 2]
          no_credential_read_idempotent[OF h, of demoEnv 2 7 0]
    by simp
qed

text \<open>
  Claim C1: for an existing user who is not pro, \<open>GET /api/stats\<close> and \<open>GET /api/posts\<close>
  answer 403 with \<open>upgrade: true\<close> whenever the requested \<open>days\<close> exceeds 7, whatever the
  platform and the cache hold; with \<open>days = 7\<close> no response has status 403.
\<close>
theorem free_tier_gate:
  assumes "getUser (storage w) userId = Some user" and "\<not> isPro user"
  shows "(numberOr (q_userId q) 1 = userId \<and> q_days q = Some d \<and> 7 < d \<longrightarrow>
            get_api_stats e fuel w q
              = Some ((403, UpgradeMessage ''Free users can only access 7 days of data'' True), w))
       \<and> (numberOr (pq_userId pq) 1 = userId \<and> pq_days pq = Some d \<and> 7 < d \<longrightarrow>
            get_api_posts e fuel w pq
              = Some ((403, UpgradeMessage ''Free users can only access 7 days of data'' True), w))
       \<and> (numberOr (q_userId q) 1 = userId \<and> q_days q = Some 7 \<longrightarrow>
            (\<forall>r w'. get_api_stats e fuel w q = Some (r, w') \<longrightarrow> fst r \<noteq> 403))
       \<and> (numberOr (pq_userId pq) 1 = userId \<and> pq_days pq = Some 7 \<longrightarrow>
            (\<forall>r w'. get_api_posts e fuel w pq = Some (r, w') \<longrightarrow> fst r \<noteq> 403))"
proof (intro conjI impI allI)
  assume "numberOr (q_userId q) 1 = userId \<and> q_days q = Some d \<and> 7 < d"
  then show "get_api_stats e fuel w q
      = Some ((403, UpgradeMessage ''Free users can only access 7 days of data'' True), w)"
    using assms by (auto simp: get_api_stats_def Let_def numberOr_def)
next
  assume "numberOr (pq_userId pq) 1 = userId \<and> pq_days pq = Some d \<and> 7 < d"
  then show "get_api_posts e fuel w pq
      = Some ((403, UpgradeMessage ''Free users can only access 7 days of data'' True), w)"
    using assms by (auto simp: get_api_posts_def Let_def numberOr_def)
next
  fix r w'
  assume "numberOr (q_userId q) 1 = userId \<and> q_days q = Some 7"
    and "get_api_stats e fuel w q = Some (r, w')"
  then show "fst r \<noteq> 403"
    using assms
    by (auto simp: get_api_stats_def Let_def numberOr_def split: if_splits option.splits)
next
  fix r w'
  assume "numberOr (pq_userId pq) 1 = userId \<and> pq_days pq = Some 7"
    and "get_api_posts e fuel w pq = Some (r, w')"
  then show "fst r \<noteq> 403"
    using assms
    by (auto simp: get_api_posts_def Let_def numberOr_def split: if_splits option.splits)
qed


lemma readStep_refl: "readStep w w"
  by (simp add: readStep_def)

lemma readStep_trans: "readStep w w1 \<Longrightarrow> readStep w1 w2 \<Longrightarrow> readStep w w2"
  by (simp add: readStep_def)

lemma readStep_tick: "readStep w (w\<lparr>tick := t\<rparr>)"
  by (simp add: readStep_def)

lemma readStep_cacheSet:
  "p \<in> set allPlatforms \<Longrightarrow> readStep w (cacheSet w (u, p, d) s)"
  by (auto simp: readStep_def cacheSet_def supportedKeysOnly_def)

lemma catchBlock_readStep:
  assumes "\<forall>w u p d r w'. self w u p d = Some (r, w') \<longrightarrow> readStep w w'"
    and "catchBlock e self w u p d err = Some (x, w')"
  shows "readStep w w'"
proof (cases "self w u p d")
  case None
  with assms(2) show ?thesis by (simp add: catchBlock_def)
next
  case (Some a)
  obtain r w1 where a: "a = (r, w1)" by (cases a)
  have step: "readStep w w1" using assms(1) Some a by simp
  show ?thesis
  proof (cases r)
    case None
    with assms(2) Some a step show ?thesis by (simp add: catchBlock_def)
  next
    case (Some c)
    with assms(2) \<open>self w u p d = Some a\<close> a have "w' = w1\<lparr>tick := Suc (tick w1)\<rparr>"
      by (simp add: catchBlock_def)
    then show ?thesis using step readStep_tick readStep_trans by blast
  qed
qed

lemma adapter_readStep:
  assumes hyp: "\<forall>w u p d r w'. self w u p d = Some (r, w') \<longrightarrow> readStep w w'"
    and call: "service_getPlatformStats svc e self w u k d = Some (x, w')"
  shows "readStep w w'"
proof (cases svc)
  case YouTubeApiService
  show ?thesis
  proof (cases "k = []")
    case True
    with call YouTubeApiService
    have "catchBlock e self w u ''youtube'' d ''YouTube API key is required'' = Some (x, w')"
      by (simp add: YouTubeApiService_getPlatformStats_def)
    then show ?thesis by (rule catchBlock_readStep[OF hyp])
  next
    case False
    obtain lv t' where live: "youtubeLive e (tick w) = (lv, t')"
      by (cases "youtubeLive e (tick w)")
    show ?thesis
    proof (cases lv)
      case (Inl err)
      with call YouTubeApiService False live
      have "catchBlock e self (w\<lparr>tick := t'\<rparr>) u ''youtube'' d err = Some (x, w')"
        by (simp add: YouTubeApiService_getPlatformStats_def)
      then have "readStep (w\<lparr>tick := t'\<rparr>) w'"
        by (rule catchBlock_readStep[OF hyp])
      then show ?thesis using readStep_tick readStep_trans by blast
    next
      case (Inr s)
      with call YouTubeApiService False live show ?thesis
        by (auto simp: YouTubeApiService_getPlatformStats_def readStep_tick)
    qed
  qed
next
  case TwitterApiService
  with call obtain err where "catchBlock e self w u ''twitter'' d err = Some (x, w')"
    by (auto simp: TwitterApiService_getPlatformStats_def split: if_splits)
  then show ?thesis by (rule catchBlock_readStep[OF hyp])
next
  case InstagramApiService
  with call obtain err where "catchBlock e self w u ''instagram'' d err = Some (x, w')"
    by (auto simp: InstagramApiService_getPlatformStats_def split: if_splits)
  then show ?thesis by (rule catchBlock_readStep[OF hyp])
next
  case FacebookApiService
  with call obtain err where "catchBlock e self w u ''facebook'' d err = Some (x, w')"
    by (auto simp: FacebookApiService_getPlatformStats_def split: if_splits)
  then show ?thesis by (rule catchBlock_readStep[OF hyp])
qed

lemma getService_supported: "getService p = Inr svc \<Longrightarrow> p \<in> set allPlatforms"
  by (auto simp: getService_def allPlatforms_def split: if_splits)

lemma getPlatformStats_readStep:
  "getPlatformStats e n w u p d = Some (r, w') \<Longrightarrow> readStep w w'"
proof (induction n arbitrary: w u p d r w')
  case 0
  then show ?case by simp
next
  case (Suc n)
  show ?case
  proof (cases "truthy (credentialFor (storage w) u p)")
    case False
    with Suc.prems show ?thesis by (simp add: Let_def readStep_refl)
  next
    case True
    show ?thesis
    proof (cases "getService p")
      case (Inl err)
      with True Suc.prems show ?thesis by (simp add: Let_def readStep_refl)
    next
      case (Inr svc)
      let ?k = "case credentialFor (storage w) u p of None \<Rightarrow> [] | Some a \<Rightarrow> a"
      show ?thesis
      proof (cases "service_getPlatformStats svc e (getPlatformStats e n) w u ?k d")
        case None
        with True Inr Suc.prems show ?thesis by (simp add: Let_def)
      next
        case (Some a)
        obtain x w1 where a: "a = (x, w1)" by (cases a)
        have step: "readStep w w1"
          using adapter_readStep[of "getPlatformStats e n" svc e w u ?k d x w1] Suc.IH Some a
          by blast
        show ?thesis
        proof (cases x)
          case (Inl err)
          with True Inr Some a Suc.prems step show ?thesis by (simp add: Let_def)
        next
          case (Inr s)
          with True \<open>getService p = Inr svc\<close> Some a Suc.prems
          have "w' = cacheSet w1 (u, p, d) s" by (simp add: Let_def)
          then show ?thesis
            using step readStep_cacheSet[OF getService_supported[OF \<open>getService p = Inr svc\<close>]]
              readStep_trans by blast
        qed
      qed
    qed
  qed
qed


lemma allStatsLoop_readStep:
  "allStatsLoop e n apiKeys u d ps acc w = Some (r, w') \<Longrightarrow> readStep w w'"
proof (induction ps arbitrary: acc w)
  case Nil
  then show ?case by (simp add: readStep_refl)
next
  case (Cons p ps)
  from Cons.prems obtain x w1 where g: "getPlatformStats e n w u p d = Some (x, w1)"
    by (cases "getPlatformStats e n w u p d") (auto simp del: getPlatformStats.simps)
  from Cons.prems g obtain acc' where "allStatsLoop e n apiKeys u d ps acc' w1 = Some (r, w')"
    by (cases x) (auto simp del: getPlatformStats.simps)
  then have "readStep w1 w'" by (rule Cons.IH)
  then show ?case using getPlatformStats_readStep[OF g] readStep_trans by blast
qed

lemma gatherPosts_readStep:
  "gatherPosts e n apiKeys u d ps acc w = Some (r, w') \<Longrightarrow> readStep w w'"
proof (induction ps arbitrary: acc w)
  case Nil
  then show ?case by (simp add: readStep_refl)
next
  case (Cons p ps)
  from Cons.prems obtain x w1 where g: "getPlatformStats e n w u p d = Some (x, w1)"
    by (cases "getPlatformStats e n w u p d") (auto simp del: getPlatformStats.simps)
  from Cons.prems g obtain acc' where "gatherPosts e n apiKeys u d ps acc' w1 = Some (r, w')"
    by (cases x) (auto simp del: getPlatformStats.simps)
  then have "readStep w1 w'" by (rule Cons.IH)
  then show ?case using getPlatformStats_readStep[OF g] readStep_trans by blast
qed

lemma world1_youtube_read:
  "getPlatformStats demoEnv (Suc n) world1 1 ''youtube'' 7
     = Some (Some (sampleYoutube 1700000000000), world1)"
  by (simp add: getPlatformStats_no_credential world1_credential truthy_def world1_facts
      freshWorld_def seeded7 demoEnv_simps)

theorem free_tier_gate_witness:
  "get_api_stats demoEnv 1 world1 \<lparr>q_userId = Some 1, q_days = Some 30, q_platform = Some ''youtube''\<rparr>
     = Some ((403, UpgradeMessage ''Free users can only access 7 days of data'' True), world1)
   \<and> get_api_posts demoEnv 1 world1
        \<lparr>pq_userId = Some 1, pq_days = Some 30, pq_platform = None, pq_page = None, pq_limit = None\<rparr>
     = Some ((403, UpgradeMessage ''Free users can only access 7 days of data'' True), world1)
   \<and> (\<exists>r w'. get_api_stats demoEnv 1 world1
                 \<lparr>q_userId = Some 1, q_days = Some 7, q_platform = Some ''youtube''\<rparr> = Some (r, w')
              \<and> fst r \<noteq> 403)"
proof -
  let ?u = "\<lparr>u_id = 1, username = ''ada'', email = ''ada@example.com'',
     password = None, firebaseUid = ''uid-1'', avatarUrl = None,
     isPro = False, lastLogin = Some 1700000000004, isFirstLogin = True\<rparr>"
  let ?q30 = "\<lparr>q_userId = Some 1, q_days = Some 30, q_platform = Some ''youtube''\<rparr>"
  let ?q7 = "\<lparr>q_userId = Some 1, q_days = Some 7, q_platform = Some ''youtube''\<rparr>"
  let ?p30 = "\<lparr>pq_userId = Some 1, pq_days = Some 30, pq_platform = None, pq_page = None, pq_limit = None\<rparr>"
  have u: "getUser (storage world1) 1 = Some ?u" by (simp add: getUser_def world1_facts)
  have f: "\<not> isPro ?u" by simp
  have r7: "get_api_stats demoEnv 1 world1 ?q7
      = Some ((200, StatsBody (sampleYoutube 1700000000000)), world1)"
    using world1_youtube_read[of 0]
    by (simp add: get_api_stats_def Let_def numberOr_def u truthy_def)
  from free_tier_gate[OF u f, where q = ?q30 and d = 30 and pq = ?p30 and e = demoEnv and fuel = 1]
  have a: "get_api_stats demoEnv 1 world1 ?q30
      = Some ((403, UpgradeMessage ''Free users can only access 7 days of data'' True), world1)"
    and b: "get_api_posts demoEnv 1 world1 ?p30
      = Some ((403, UpgradeMessage ''Free users can only access 7 days of data'' True), world1)"
    by (simp_all add: numberOr_def)
  from free_tier_gate[OF u f, where q = ?q7 and d = 7 and pq = ?p30 and e = demoEnv and fuel = 1] r7
  have c: "fst (200::nat, StatsBody (sampleYoutube 1700000000000)) \<noteq> 403"
    by (simp add: numberOr_def)
  show ?thesis using a b c r7 by simp
qed

lemma usersBelowCounter_new: "usersBelowCounter (storage (newMemStorage e sc))"
  by (simp add: usersBelowCounter_def newMemStorage_fields)

lemma usersBelowCounter_updateUser:
  "usersBelowCounter st \<Longrightarrow> usersBelowCounter (snd (updateUser st i d))"
  by (auto simp: usersBelowCounter_def updateUser_def Let_def split: option.splits)

lemma usersBelowCounter_saveApiKeys:
  "usersBelowCounter st \<Longrightarrow> usersBelowCounter (snd (saveApiKeys st v))"
  by (simp add: usersBelowCounter_def saveApiKeys_def Let_def)

lemma usersBelowCounter_updateApiKeys:
  "usersBelowCounter st \<Longrightarrow> usersBelowCounter (snd (updateApiKeys st u d))"
  by (simp add: usersBelowCounter_def updateApiKeys_def Let_def split: option.splits)

lemma usersBelowCounter_read:
  "getPlatformStats e n w u p d = Some (r, w') \<Longrightarrow> usersBelowCounter (storage w) \<Longrightarrow>
   usersBelowCounter (storage w')"
  using getPlatformStats_readStep[of e n w u p d r w']
  by (simp add: readStep_def usersBelowCounter_def)

text \<open>
  Claim C9: \<open>createUser\<close> returns a user with \<open>isPro = false\<close>, \<open>isFirstLogin = true\<close> and
  \<open>lastLogin\<close> the time of creation whatever the payload, files it under the current
  counter value, which no earlier user occupies, and leaves every other user record as
  it was. The counter stays above all keys in use.
\<close>
theorem createUser_fresh_id:
  assumes "usersBelowCounter (storage w)"
  shows "isPro (fst (createUser e w ins)) = False
       \<and> isFirstLogin (fst (createUser e w ins)) = True
       \<and> lastLogin (fst (createUser e w ins)) = Some (clock e (tick w))
       \<and> u_id (fst (createUser e w ins)) = currentUserId (storage w)
       \<and> u_id (fst (createUser e w ins)) \<notin> dom (users (storage w))
       \<and> users (storage (snd (createUser e w ins))) (u_id (fst (createUser e w ins)))
            = Some (fst (createUser e w ins))
       \<and> (\<forall>k. k \<noteq> u_id (fst (createUser e w ins)) \<longrightarrow>
              users (storage (snd (createUser e w ins))) k = users (storage w) k)
       \<and> usersBelowCounter (storage (snd (createUser e w ins)))"
proof -
  have fresh: "currentUserId (storage w) \<notin> dom (users (storage w))"
    using assms by (auto simp: usersBelowCounter_def)
  have inv: "usersBelowCounter (storage (snd (createUser e w ins)))"
    unfolding usersBelowCounter_def createUser_frame
  proof
    fix k assume "k \<in> dom ((users (storage w))(currentUserId (storage w) \<mapsto> fst (createUser e w ins)))"
    then have "k = currentUserId (storage w) \<or> k \<in> dom (users (storage w))" by auto
    then show "k < currentUserId (storage w) + 1"
    proof
      assume "k = currentUserId (storage w)"
      then show ?thesis by simp
    next
      assume "k \<in> dom (users (storage w))"
      then have "k < currentUserId (storage w)"
        using assms unfolding usersBelowCounter_def by blast
      then show ?thesis by linarith
    qed
  qed
  show ?thesis
    using fresh inv by (simp add: createUser_result createUser_frame)
qed

theorem createUser_fresh_id_witness:
  "usersBelowCounter (storage world1)
   \<and> u_id (fst (createUser demoEnv world1 demoInsertUser)) = 2
   \<and> isPro (fst (createUser demoEnv world1 demoInsertUser)) = False
   \<and> isFirstLogin (fst (createUser demoEnv world1 demoInsertUser)) = True
   \<and> lastLogin (fst (createUser demoEnv world1 demoInsertUser)) = Some 1700000000005
   \<and> users (storage (snd (createUser demoEnv world1 demoInsertUser))) 1 = users (storage world1) 1"
proof -
  have h: "usersBelowCounter (storage world1)"
    using createUser_fresh_id[OF usersBelowCounter_new[of demoEnv "\<lambda>s. s"], where e = demoEnv and ins = demoInsertUser]
    by (simp add: world1_def freshWorld_def)
  have c: "currentUserId (storage world1) = 2" "tick world1 = 5"
    by (simp_all add: world1_def freshWorld_def createUser_frame newMemStorage_fields)
  show ?thesis
    using h c createUser_fresh_id[OF h, where e = demoEnv and ins = demoInsertUser]
    by (simp add: demoEnv_simps)
qed


lemma parseInt_zero: "parseInt ''0'' = Some 0"
  by (simp add: parseInt_def isWhiteSpace_def isDigit_def digitValue_def)

lemma parseInt_1000: "parseInt ''1000'' = Some 1000"
  by (simp add: parseInt_def isWhiteSpace_def isDigit_def digitValue_def)

lemma parseInt_12: "parseInt ''12'' = Some 12"
  by (simp add: parseInt_def isWhiteSpace_def isDigit_def digitValue_def)

lemma parseIntOr0_simps:
  "parseIntOr0 None = 0" "parseIntOr0 (Some ''0'') = 0"
  by (simp_all add: parseIntOr0_def parseInt_zero)


lemma youtubeLive_ok:
  assumes "ytChannel e (t + 2) = Ok (Some (c # cs))" and "ytVideos e (t + 3) = Ok vs"
    and "ytVideoStats e (t + 4) = Ok sts"
  shows "youtubeLive e t =
     (Inr \<lparr>platform = ''youtube'',
           followers = parseIntOr0 (ch_subscriberCount c),
           followersGrowth = getRandomGrowth e (t + 5),
           views = parseIntOr0 (ch_viewCount c),
           viewsGrowth = getRandomGrowth e (t + 6),
           engagement = parseIntOr0 (ch_commentCount c),
           engagementGrowth = getRandomGrowth e (t + 7),
           posts = youtubePosts vs sts,
           lastUpdated = clock e (t + 8),
           errorMessage = None, isApiError = None\<rparr>, t + 9)"
  using assms by (simp add: youtubeLive_def)






lemma world1_twitter_read:
  "getPlatformStats demoEnv (Suc n) world1 1 ''twitter'' 7
     = Some (Some (sampleTwitter 1700000000002), world1)"
  by (simp add: getPlatformStats_no_credential world1_credential truthy_def world1_facts
      freshWorld_def seeded7 demoEnv_simps)


lemma worldYt_facts:
  "platformApiKeys (storage worldYt) = [(1, \<lparr>k_id = 1, k_userId = 1, youtubeKey = Some ''k'',
      instagramKey = None, twitterKey = None, facebookKey = None\<rparr>)]"
  "socialStats (storage worldYt) = socialStats (storage freshWorld)"
  "users (storage worldYt) 1 = Some \<lparr>u_id = 1, username = ''ada'', email = ''ada@example.com'',
     password = None, firebaseUid = ''uid-1'', avatarUrl = None,
     isPro = False, lastLogin = Some 1700000000004, isFirstLogin = False\<rparr>"
  "tick worldYt = 5"
  by (simp_all add: worldYt_def post_api_apikeys_def getApiKeys_def world1_facts saveApiKeys_def
     Let_def updateUser_def youtubeToken_def orNull2_def orNull_def world1_def createUser_frame
     freshWorld_def newMemStorage_fields applyUserPatch_def noUserPatch_def createUser_result
     demoInsertUser_def demoEnv_simps split: prod.split option.split)

lemma worldYt_credential: "credentialFor (storage worldYt) 1 ''youtube'' = Some ''k''"
  by (simp add: credentialFor_def getApiKeys_def worldYt_facts apiKeyField_def)

lemma getRandomGrowth_zero: "random e n = 0 \<Longrightarrow> round64 e 0 = 0 \<Longrightarrow> getRandomGrowth e n = - 2"
  by (simp add: getRandomGrowth_def)

lemma liveEnv_youtubeLive:
  "youtubeLive liveEnv t = (Inr (liveYoutubeStats (1700000000000 + int t + 8)), t + 9)"
proof -
  have p: "parseIntOr0 (Some ''1000'') = 1000" "parseIntOr0 (Some ''12'') = 12"
    by (simp_all add: parseIntOr0_def parseInt_1000 parseInt_12)
  show ?thesis
    by (simp add: youtubeLive_ok[OF liveEnv_simps(2) liveEnv_simps(3) liveEnv_simps(4)]
        liveYoutubeStats_def p parseIntOr0_simps getRandomGrowth_zero liveEnv_simps
        youtubePosts_def youtubePost_def Let_def noVideoStatistics_def)
qed


lemma getPlatformStats_live:
  assumes "credentialFor (storage w) u ''youtube'' = Some k" and "k \<noteq> []"
    and "youtubeLive e (tick w) = (Inr s, t')"
  shows "getPlatformStats e (Suc n) w u ''youtube'' d
           = Some (Some s, cacheSet (w\<lparr>tick := t'\<rparr>) (u, ''youtube'', d) s)"
  using assms
  by (simp add: Let_def truthy_def getService_simps YouTubeApiService_getPlatformStats_def)






lemma worldOrphan_facts:
  "platformApiKeys (storage worldOrphan) = [(1, \<lparr>k_id = 1, k_userId = 1, youtubeKey = None,
      instagramKey = None, twitterKey = Some ''tok'', facebookKey = None\<rparr>)]"
  "users (storage worldOrphan) 1 = Some \<lparr>u_id = 1, username = ''ada'', email = ''ada@example.com'',
     password = None, firebaseUid = ''uid-1'', avatarUrl = None,
     isPro = False, lastLogin = Some 1700000000004, isFirstLogin = True\<rparr>"
  by (simp_all add: worldOrphan_def post_api_apikeys_def getApiKeys_def saveApiKeys_def
     Let_def updateUser_def twitterToken_def orNull2_def orNull_def createUser_frame createUser_result
     freshWorld_def newMemStorage_fields demoInsertUser_def demoEnv_simps split: prod.split option.split)

text \<open>
  Claim C6 says that \<open>isFirstLogin\<close> is false after every successful
  \<open>POST /api/apikeys\<close>. On the update path the handler returns before the flag is
  touched: a credential set posted for user 1 before user 1 signed up makes the next post
  take that path, and it answers 200 with the flag still true.
\<close>
theorem update_path_keeps_first_login:
  "getApiKeys (storage worldOrphan) 1 \<noteq> None
   \<and> fst (post_api_apikeys worldOrphan (Parsed youtubeToken))
       = (200, ApiKeyBody \<lparr>k_id = 1, k_userId = 1, youtubeKey = Some ''k'', instagramKey = None,
                           twitterKey = Some ''tok'', facebookKey = None\<rparr>)
   \<and> map_option isFirstLogin (users (storage (snd (post_api_apikeys worldOrphan (Parsed youtubeToken)))) 1)
       = Some True"
  by (simp add: post_api_apikeys_def getApiKeys_def worldOrphan_facts updateApiKeys_def Let_def
      youtubeToken_def asApiKeyPatch_def applyApiKeyPatch_def)

lemma post_apikeys_create_path:
  assumes "getApiKeys (storage w) (ik_userId v) = None" and "users (storage w) (ik_userId v) = Some u"
  shows "fst (fst (post_api_apikeys w (Parsed v))) = 201
       \<and> map_option isFirstLogin (users (storage (snd (post_api_apikeys w (Parsed v)))) (ik_userId v))
           = Some False"
  using assms
  by (simp add: post_api_apikeys_def saveApiKeys_def updateUser_def Let_def applyUserPatch_def
      noUserPatch_def)

lemma post_apikeys_update_path:
  assumes "getApiKeys (storage w) (ik_userId v) = Some k"
  shows "fst (fst (post_api_apikeys w (Parsed v))) = 200
       \<and> users (storage (snd (post_api_apikeys w (Parsed v)))) = users (storage w)"
  using assms
  by (simp add: post_api_apikeys_def updateApiKeys_def getApiKeys_def Let_def)



lemma supportedKeysOnly_new: "supportedKeysOnly (storage (newMemStorage e sc))"
  by (auto simp: supportedKeysOnly_def newMemStorage_def initializeSampleData_def setAll_def
      sampleData_def allPlatforms_def split: if_splits)

lemma supportedKeysOnly_read:
  "getPlatformStats e n w u p d = Some (r, w') \<Longrightarrow> supportedKeysOnly (storage w) \<Longrightarrow>
   supportedKeysOnly (storage w')"
  using getPlatformStats_readStep[of e n w u p d r w'] by (simp add: readStep_def)

lemma supportedKeysOnly_createUser:
  "supportedKeysOnly (storage w) \<Longrightarrow> supportedKeysOnly (storage (snd (createUser e w ins)))"
  by (simp add: supportedKeysOnly_def createUser_frame)

lemma supportedKeysOnly_post_apikeys:
  "supportedKeysOnly (storage w) \<Longrightarrow> supportedKeysOnly (storage (snd (post_api_apikeys w b)))"
  by (simp add: supportedKeysOnly_def post_api_apikeys_def updateApiKeys_def saveApiKeys_def
      updateUser_def Let_def split: parsed.splits option.splits prod.splits)

text \<open>
  Claim C10, as amended: for a non-empty platform tag outside the four supported ones and
  different from \<open>all\<close>, a \<open>GET /api/stats\<close> request of an existing user that passes the
  free-tier gate answers 404. No credential is ever found for such a tag, so the live
  branch and the factory are not reached, and the cache holds nothing under it.
\<close>
theorem unsupported_platform_not_found:
  assumes "supportedKeysOnly (storage w)"
    and "getUser (storage w) (numberOr (q_userId q) 1) = Some user"
    and "isPro user \<or> numberOr (q_days q) 7 \<le> 7"
    and "q_platform q = Some p" and "p \<noteq> []" and "p \<noteq> ''all''" and "p \<notin> set allPlatforms"
  shows "credentialFor (storage w) (numberOr (q_userId q) 1) p = None
       \<and> get_api_stats e (Suc n) w q = Some ((404, Message (''No stats found for '' @ p)), w)"
proof -
  let ?u = "numberOr (q_userId q) 1" and ?d = "numberOr (q_days q) 7"
  have c: "credentialFor (storage w) ?u p = None"
    using assms(7) by (rule credentialFor_unsupported)
  have "socialStats (storage w) (?u, p, ?d) = None"
    using assms(1,7) unfolding supportedKeysOnly_def by blast
  then have r: "getPlatformStats e (Suc n) w ?u p ?d = Some (None, w)"
    using c by (simp add: getPlatformStats_no_credential truthy_def)
  have g: "\<not> (\<not> isPro user \<and> 7 < ?d)" using assms(3) by auto
  show ?thesis
    using c r g assms(2,4,5,6) by (simp add: get_api_stats_def Let_def truthy_def)
qed

lemma world1_supportedKeysOnly: "supportedKeysOnly (storage world1)"
  unfolding world1_def freshWorld_def
  by (rule supportedKeysOnly_createUser[OF supportedKeysOnly_new])

theorem unsupported_platform_not_found_witness:
  "get_api_stats demoEnv (Suc 0) world1 \<lparr>q_userId = Some 1, q_days = Some 7, q_platform = Some ''tiktok''\<rparr>
     = Some ((404, Message ''No stats found for tiktok''), world1)"
proof -
  let ?u = "\<lparr>u_id = 1, username = ''ada'', email = ''ada@example.com'',
     password = None, firebaseUid = ''uid-1'', avatarUrl = None,
     isPro = False, lastLogin = Some 1700000000004, isFirstLogin = True\<rparr>"
  let ?q = "\<lparr>q_userId = Some 1, q_days = Some 7, q_platform = Some ''tiktok''\<rparr>"
  have u: "getUser (storage world1) (numberOr (q_userId ?q) 1) = Some ?u"
    by (simp add: getUser_def world1_facts numberOr_def)
  have g: "isPro ?u \<or> numberOr (q_days ?q) 7 \<le> 7" by (simp add: numberOr_def)
  have p: "q_platform ?q = Some ''tiktok''" "''tiktok'' \<noteq> []" "''tiktok'' \<noteq> ''all''"
    "''tiktok'' \<notin> set allPlatforms"
    by (simp_all add: allPlatforms_def)
  show ?thesis
    using unsupported_platform_not_found[OF world1_supportedKeysOnly u g p, where e = demoEnv and n = 0]
    by simp
qed

lemma world1_all_stats:
  "getAllPlatformStats demoEnv (Suc n) world1 1 7 = Some (seededStats, world1)"
proof -
  have r: "getPlatformStats demoEnv (Suc n) world1 1 p 7
             = Some (socialStats (storage freshWorld) (1, p, 7), world1)" for p
    by (simp add: getPlatformStats_no_credential world1_credential truthy_def world1_facts)
  have k: "getApiKeys (storage world1) 1 = None" by (simp add: getApiKeys_def world1_facts)
  show ?thesis
    by (simp add: getAllPlatformStats_def allPlatforms_def r k freshWorld_def seeded7
        seededStats_def hasConnected_def demoEnv_simps del: getPlatformStats.simps)
qed

text \<open>
  Claim C10 as stated fails: for the free user 1 the tag \<open>tiktok\<close> with \<open>days = 30\<close> is
  answered 403 by the free-tier gate, and the empty tag is answered 200 with the
  aggregate of all platforms.
\<close>
theorem unsupported_platform_gated:
  "get_api_stats demoEnv (Suc 0) world1 \<lparr>q_userId = Some 1, q_days = Some 30, q_platform = Some ''tiktok''\<rparr>
     = Some ((403, UpgradeMessage ''Free users can only access 7 days of data'' True), world1)
   \<and> get_api_stats demoEnv (Suc 0) world1 \<lparr>q_userId = Some 1, q_days = Some 7, q_platform = Some []\<rparr>
     = Some ((200, AllStatsBody seededStats), world1)"
proof -
  have "get_api_stats demoEnv (Suc 0) world1
          \<lparr>q_userId = Some 1, q_days = Some 30, q_platform = Some ''tiktok''\<rparr>
     = Some ((403, UpgradeMessage ''Free users can only access 7 days of data'' True), world1)"
    by (simp add: get_api_stats_def Let_def numberOr_def getUser_def world1_facts)
  moreover have "get_api_stats demoEnv (Suc 0) world1
          \<lparr>q_userId = Some 1, q_days = Some 7, q_platform = Some []\<rparr>
     = Some ((200, AllStatsBody seededStats), world1)"
    using world1_all_stats[of 0]
    by (simp add: get_api_stats_def Let_def numberOr_def getUser_def world1_facts truthy_def
        del: getPlatformStats.simps)
  ultimately show ?thesis by simp
qed

text \<open>
  Claim C8, as amended: for user 1, free tier, with no credential on file, and as long as
  the four seven-day entries of user 1 are those the constructor wrote,
  \<open>GET /api/stats?userId=1&days=7\<close> answers 200 with exactly the four seeded entries in the
  order youtube, instagram, twitter, facebook; the youtube entry has 78200 followers.
\<close>
theorem seeded_stats_for_user_1:
  assumes "getUser (storage w) 1 = Some user" and "\<not> isPro user"
    and "\<forall>p \<in> set allPlatforms. \<not> truthy (credentialFor (storage w) 1 p)"
    and "\<forall>p \<in> set allPlatforms.
           socialStats (storage w) (1, p, 7) = socialStats (storage (newMemStorage e0 sc)) (1, p, 7)"
  shows "get_api_stats e (Suc n) w \<lparr>q_userId = Some 1, q_days = Some 7, q_platform = None\<rparr>
     = Some ((200, AllStatsBody
          [\<lparr>sc_stats = sampleYoutube (clock e0 0),
            sc_isConnected = hasConnected (getApiKeys (storage w) 1) ''youtube''\<rparr>,
           \<lparr>sc_stats = sampleInstagram (clock e0 1),
            sc_isConnected = hasConnected (getApiKeys (storage w) 1) ''instagram''\<rparr>,
           \<lparr>sc_stats = sampleTwitter (clock e0 2),
            sc_isConnected = hasConnected (getApiKeys (storage w) 1) ''twitter''\<rparr>,
           \<lparr>sc_stats = sampleFacebook (clock e0 3),
            sc_isConnected = hasConnected (getApiKeys (storage w) 1) ''facebook''\<rparr>]), w)
     \<and> followers (sampleYoutube (clock e0 0)) = 78200"
proof -
  have r: "getPlatformStats e (Suc n) w 1 p 7 = Some (socialStats (storage (newMemStorage e0 sc)) (1, p, 7), w)"
    if "p \<in> set allPlatforms" for p
    using that assms(3,4) by (simp add: getPlatformStats_no_credential)
  have "getPlatformStats e (Suc n) w 1 ''youtube'' 7 = Some (Some (sampleYoutube (clock e0 0)), w)"
       "getPlatformStats e (Suc n) w 1 ''instagram'' 7 = Some (Some (sampleInstagram (clock e0 1)), w)"
       "getPlatformStats e (Suc n) w 1 ''twitter'' 7 = Some (Some (sampleTwitter (clock e0 2)), w)"
       "getPlatformStats e (Suc n) w 1 ''facebook'' 7 = Some (Some (sampleFacebook (clock e0 3)), w)"
    using r by (simp_all add: allPlatforms_def seeded7 del: getPlatformStats.simps)
  then have "getAllPlatformStats e (Suc n) w 1 7 = Some (
          [\<lparr>sc_stats = sampleYoutube (clock e0 0),
            sc_isConnected = hasConnected (getApiKeys (storage w) 1) ''youtube''\<rparr>,
           \<lparr>sc_stats = sampleInstagram (clock e0 1),
            sc_isConnected = hasConnected (getApiKeys (storage w) 1) ''instagram''\<rparr>,
           \<lparr>sc_stats = sampleTwitter (clock e0 2),
            sc_isConnected = hasConnected (getApiKeys (storage w) 1) ''twitter''\<rparr>,
           \<lparr>sc_stats = sampleFacebook (clock e0 3),
            sc_isConnected = hasConnected (getApiKeys (storage w) 1) ''facebook''\<rparr>], w)"
    by (simp add: getAllPlatformStats_def allPlatforms_def del: getPlatformStats.simps)
  then show ?thesis
    using assms(1,2)
    by (simp add: get_api_stats_def Let_def numberOr_def truthy_def sampleYoutube_def
        del: getPlatformStats.simps)
qed

theorem seeded_stats_for_user_1_witness:
  "get_api_stats demoEnv (Suc 0) world1 \<lparr>q_userId = Some 1, q_days = Some 7, q_platform = None\<rparr>
     = Some ((200, AllStatsBody
          [\<lparr>sc_stats = sampleYoutube 1700000000000, sc_isConnected = None\<rparr>,
           \<lparr>sc_stats = sampleInstagram 1700000000001, sc_isConnected = None\<rparr>,
           \<lparr>sc_stats = sampleTwitter 1700000000002, sc_isConnected = None\<rparr>,
           \<lparr>sc_stats = sampleFacebook 1700000000003, sc_isConnected = None\<rparr>]), world1)
   \<and> followers (sampleYoutube 1700000000000) = 78200"
proof -
  let ?u = "\<lparr>u_id = 1, username = ''ada'', email = ''ada@example.com'',
     password = None, firebaseUid = ''uid-1'', avatarUrl = None,
     isPro = False, lastLogin = Some 1700000000004, isFirstLogin = True\<rparr>"
  have u: "getUser (storage world1) 1 = Some ?u" by (simp add: getUser_def world1_facts)
  have f: "\<not> isPro ?u" by simp
  have c: "\<forall>p \<in> set allPlatforms. \<not> truthy (credentialFor (storage world1) 1 p)"
    by (simp add: world1_credential truthy_def)
  have s: "\<forall>p \<in> set allPlatforms.
      socialStats (storage world1) (1, p, 7) = socialStats (storage (newMemStorage demoEnv (\<lambda>s. s))) (1, p, 7)"
    by (simp add: world1_facts freshWorld_def)
  have k: "getApiKeys (storage world1) 1 = None" by (simp add: getApiKeys_def world1_facts)
  show ?thesis
    using seeded_stats_for_user_1[OF u f c s, where e = demoEnv and n = 0]
    by (simp add: k hasConnected_def demoEnv_simps)
qed

lemma worldYtRead_eq:
  "worldYtRead = cacheSet (worldYt\<lparr>tick := 14\<rparr>) (1, ''youtube'', 7) (liveYoutubeStats 1700000000013)"
proof -
  have k: "''k'' \<noteq> []" by simp
  have l: "youtubeLive liveEnv (tick worldYt) = (Inr (liveYoutubeStats 1700000000013), 14)"
    using liveEnv_youtubeLive[of 5] by (simp add: worldYt_facts)
  show ?thesis
    using getPlatformStats_live[OF worldYt_credential k l, of 0 7]
    by (simp add: worldYtRead_def del: getPlatformStats.simps)
qed

lemma worldDisconnected_facts:
  "platformApiKeys (storage worldDisconnected) = [(1, \<lparr>k_id = 1, k_userId = 1, youtubeKey = None,
      instagramKey = None, twitterKey = None, facebookKey = None\<rparr>)]"
  "socialStats (storage worldDisconnected)
     = (socialStats (storage freshWorld))((1, ''youtube'', 7) \<mapsto> liveYoutubeStats 1700000000013)"
  "users (storage worldDisconnected) 1 = Some \<lparr>u_id = 1, username = ''ada'', email = ''ada@example.com'',
     password = None, firebaseUid = ''uid-1'', avatarUrl = None,
     isPro = False, lastLogin = Some 1700000000004, isFirstLogin = False\<rparr>"
  by (simp_all add: worldDisconnected_def worldYtRead_eq cacheSet_def post_api_apikeys_def
      getApiKeys_def updateApiKeys_def worldYt_facts Let_def removeYoutubeKey_def asApiKeyPatch_def
      applyApiKeyPatch_def)

lemma worldDisconnected_credential:
  "\<not> truthy (credentialFor (storage worldDisconnected) 1 p)"
  by (simp add: credentialFor_def getApiKeys_def worldDisconnected_facts apiKeyField_def truthy_def)

text \<open>
  Claim C8 as stated fails once a live read has replaced a seeded entry: user 1 puts a
  YouTube key on file, reads once while the calls succeed, and removes the key. User 1 is
  then a free user with no credential on file, and the youtube entry of the response has
  1000 followers.
\<close>
theorem live_read_replaces_seed:
  "map_option isPro (getUser (storage worldDisconnected) 1) = Some False
   \<and> \<not> truthy (credentialFor (storage worldDisconnected) 1 ''youtube'')
   \<and> \<not> truthy (credentialFor (storage worldDisconnected) 1 ''instagram'')
   \<and> \<not> truthy (credentialFor (storage worldDisconnected) 1 ''twitter'')
   \<and> \<not> truthy (credentialFor (storage worldDisconnected) 1 ''facebook'')
   \<and> get_api_stats liveEnv (Suc 0) worldDisconnected
        \<lparr>q_userId = Some 1, q_days = Some 7, q_platform = None\<rparr>
      = Some ((200, AllStatsBody
          [\<lparr>sc_stats = liveYoutubeStats 1700000000013, sc_isConnected = Some False\<rparr>,
           \<lparr>sc_stats = sampleInstagram 1700000000001, sc_isConnected = Some False\<rparr>,
           \<lparr>sc_stats = sampleTwitter 1700000000002, sc_isConnected = Some False\<rparr>,
           \<lparr>sc_stats = sampleFacebook 1700000000003, sc_isConnected = Some False\<rparr>]),
          worldDisconnected)
   \<and> followers (liveYoutubeStats 1700000000013) = 1000"
proof -
  have r: "getPlatformStats liveEnv (Suc 0) worldDisconnected 1 p 7
             = Some (socialStats (storage worldDisconnected) (1, p, 7), worldDisconnected)" for p
    using worldDisconnected_credential[of p] by (rule getPlatformStats_no_credential)
  have k: "getApiKeys (storage worldDisconnected) 1 = Some \<lparr>k_id = 1, k_userId = 1, youtubeKey = None,
      instagramKey = None, twitterKey = None, facebookKey = None\<rparr>"
    by (simp add: getApiKeys_def worldDisconnected_facts)
  have all: "getAllPlatformStats liveEnv (Suc 0) worldDisconnected 1 7 = Some (
          [\<lparr>sc_stats = liveYoutubeStats 1700000000013, sc_isConnected = Some False\<rparr>,
           \<lparr>sc_stats = sampleInstagram 1700000000001, sc_isConnected = Some False\<rparr>,
           \<lparr>sc_stats = sampleTwitter 1700000000002, sc_isConnected = Some False\<rparr>,
           \<lparr>sc_stats = sampleFacebook 1700000000003, sc_isConnected = Some False\<rparr>], worldDisconnected)"
    by (simp add: getAllPlatformStats_def allPlatforms_def r k worldDisconnected_facts freshWorld_def
        seeded7 hasConnected_def apiKeyField_def truthy_def demoEnv_simps del: getPlatformStats.simps)
  show ?thesis
    using all worldDisconnected_credential
    by (simp add: get_api_stats_def Let_def numberOr_def getUser_def worldDisconnected_facts
        truthy_def liveYoutubeStats_def del: getPlatformStats.simps)
qed


lemma gatherPosts_step:
  "getPlatformStats e fuel w u p d = Some (s, w1) \<Longrightarrow>
   gatherPosts e fuel k u d (p # ps) acc w = gatherPosts e fuel k u d ps (acc @ taggedPosts k p s) w1"
  by (cases s) (simp_all add: taggedPosts_def del: getPlatformStats.simps)

lemma gatherPosts_no_credential:
  assumes "\<forall>p \<in> set ps. \<not> truthy (credentialFor (storage w) userId p)"
  shows "gatherPosts e (Suc n) apiKeys userId days ps acc w
           = Some (acc @ concat (map (\<lambda>p. taggedPosts apiKeys p (socialStats (storage w) (userId, p, days))) ps), w)"
  using assms
proof (induction ps arbitrary: acc)
  case Nil
  show ?case by simp
next
  case (Cons p ps)
  have r: "getPlatformStats e (Suc n) w userId p days = Some (socialStats (storage w) (userId, p, days), w)"
    using Cons.prems by (simp add: getPlatformStats_no_credential)
  have ih: "gatherPosts e (Suc n) apiKeys userId days ps acc' w
           = Some (acc' @ concat (map (\<lambda>p. taggedPosts apiKeys p (socialStats (storage w) (userId, p, days))) ps), w)"
    for acc'
    using Cons.IH Cons.prems by simp
  show ?case
    by (simp add: gatherPosts_step[OF r] ih del: getPlatformStats.simps gatherPosts.simps)
qed

lemma toInteger_of_nat: "toInteger (of_nat a) = int a"
  by (simp add: toInteger_def)

lemma relIndex_nat: "relIndex len (int a) = min a len"
  by (simp add: relIndex_def)

lemma take_drop_clamped:
  "take (min (a + L) (length xs) - min a (length xs)) (drop (min a (length xs)) xs) = take L (drop a xs)"
proof (cases "a \<le> length xs")
  case True
  then have "min a (length xs) = a" by simp
  moreover have "take (min (a + L) (length xs) - a) (drop a xs) = take L (drop a xs)"
  proof (cases "a + L \<le> length xs")
    case True
    then show ?thesis by simp
  next
    case False
    then have "min (a + L) (length xs) - a = length (drop a xs)" using \<open>a \<le> length xs\<close> by simp
    moreover have "length (drop a xs) \<le> L" using False by simp
    ultimately show ?thesis by simp
  qed
  ultimately show ?thesis by simp
next
  case False
  then show ?thesis by simp
qed

lemma slice_page:
  "slice xs (of_nat a) (of_nat a + of_nat L) = take L (drop a xs)"
proof -
  have "(of_nat a + of_nat L :: rat) = of_nat (a + L)" by simp
  then show ?thesis
    unfolding slice_def Let_def
    by (simp only: toInteger_of_nat relIndex_nat take_drop_clamped)
qed

lemma toInteger_large: "of_nat n \<le> x \<Longrightarrow> int n \<le> toInteger x"
proof -
  assume a: "of_nat n \<le> x"
  then have "0 \<le> x" using of_nat_0_le_iff[of n] by (meson order_trans of_nat_0_le_iff)
  then have "toInteger x = \<lfloor>x\<rfloor>" by (simp add: toInteger_def)
  moreover have "int n \<le> \<lfloor>x\<rfloor>" using a by (simp add: le_floor_iff)
  ultimately show ?thesis by simp
qed

lemma relIndex_large: "int len \<le> r \<Longrightarrow> relIndex len r = len"
  by (simp add: relIndex_def)

lemma slice_start_beyond: "of_nat (length xs) \<le> s \<Longrightarrow> slice xs s t = []"
  using relIndex_large[OF toInteger_large, of "length xs" s]
  by (simp add: slice_def Let_def)

lemma slice_end_beyond: "of_nat (length xs) \<le> t \<Longrightarrow> slice xs (of_nat a) t = drop a xs"
proof -
  assume "of_nat (length xs) \<le> t"
  then have f: "relIndex (length xs) (toInteger t) = length xs"
    by (intro relIndex_large toInteger_large)
  have "take (length xs - min a (length xs)) (drop (min a (length xs)) xs) = drop a xs"
    by (cases "a \<le> length xs") simp_all
  then show ?thesis
    by (simp add: slice_def Let_def f toInteger_of_nat relIndex_nat)
qed


lemma rounded_page:
  assumes r: "binary64Rounding e" and pg: "0 < pg" and L: "0 < L" and len: "length xs < 2 ^ 32"
  shows "slice xs (round64 e (round64 e (of_nat pg - 1) * of_nat L))
               (round64 e (round64 e (round64 e (of_nat pg - 1) * of_nat L) + of_nat L))
         = take L (drop ((pg - 1) * L) xs)"
proof -
  define A where "A = pg - 1"
  define N :: nat where "N = 2 ^ 53"
  have mono: "round64 e x \<le> round64 e y" if "x \<le> y" for x y
    using r that unfolding binary64Rounding_def by blast
  have exact: "round64 e (of_nat n) = of_nat n" if "n \<le> N" for n
    using r that unfolding binary64Rounding_def N_def by blast
  have lenN: "length xs \<le> N" using len unfolding N_def by simp
  have pgA: "(of_nat pg - 1 :: rat) = of_nat A" using pg by (simp add: A_def of_nat_diff)
  have bigN: "of_nat N \<le> round64 e x" if "of_nat N \<le> x" for x
    using mono[OF that] exact[of N] by simp
  have lenle: "(of_nat (length xs) :: rat) \<le> of_nat N" using lenN by simp
  show ?thesis unfolding pgA A_def[symmetric]
  proof (cases "A * L \<le> N")
    case True
    have "A * 1 \<le> A * L" using L by (intro mult_le_mono2) simp
    then have "A \<le> N" using True by (simp only: mult_1_right order_trans)
    then have s: "round64 e (round64 e (of_nat A) * of_nat L) = of_nat (A * L)"
      using exact[of A] exact[of "A * L"] True by simp
    show "slice xs (round64 e (round64 e (of_nat A) * of_nat L))
               (round64 e (round64 e (round64 e (of_nat A) * of_nat L) + of_nat L))
         = take L (drop (A * L) xs)"
    proof (cases "A * L + L \<le> N")
      case True
      then have "round64 e (of_nat (A * L) + of_nat L) = of_nat (A * L) + of_nat L"
        using exact[of "A * L + L"] by simp
      then show ?thesis unfolding s by (simp only: slice_page)
    next
      case False
      then have "N \<le> A * L + L" by simp
      then have "(of_nat N :: rat) \<le> of_nat (A * L + L)" by (simp only: of_nat_le_iff)
      then have "(of_nat N :: rat) \<le> of_nat (A * L) + of_nat L" by simp
      then have "of_nat N \<le> round64 e (of_nat (A * L) + of_nat L)" by (rule bigN)
      then have "of_nat (length xs) \<le> round64 e (of_nat (A * L) + of_nat L)"
        using lenle by (rule order_trans[rotated])
      then have "slice xs (of_nat (A * L)) (round64 e (of_nat (A * L) + of_nat L)) = drop (A * L) xs"
        by (rule slice_end_beyond)
      moreover have "length (drop (A * L) xs) \<le> L" using False lenN by simp
      ultimately show ?thesis unfolding s by simp
    qed
  next
    case False
    have "(of_nat N :: rat) \<le> round64 e (of_nat A) * of_nat L"
    proof (cases "A \<le> N")
      case True
      have "N \<le> A * L" using False by simp
      then have "(of_nat N :: rat) \<le> of_nat (A * L)" by (simp only: of_nat_le_iff)
      then show ?thesis using exact[OF True] by simp
    next
      case False
      then have "(of_nat N :: rat) \<le> of_nat A" by simp
      then have "of_nat N \<le> round64 e (of_nat A)" by (rule bigN)
      moreover have "(1 :: rat) \<le> of_nat L" using L by simp
      ultimately have "of_nat N * 1 \<le> round64 e (of_nat A) * of_nat L"
        by (intro mult_mono) simp_all
      then show ?thesis by simp
    qed
    then have "of_nat N \<le> round64 e (round64 e (of_nat A) * of_nat L)" by (rule bigN)
    then have "of_nat (length xs) \<le> round64 e (round64 e (of_nat A) * of_nat L)"
      using lenle by (rule order_trans[rotated])
    then have "slice xs (round64 e (round64 e (of_nat A) * of_nat L))
               (round64 e (round64 e (round64 e (of_nat A) * of_nat L) + of_nat L)) = []"
      by (rule slice_start_beyond)
    moreover have "drop (A * L) xs = []" using False lenN by simp
    ultimately show "slice xs (round64 e (round64 e (of_nat A) * of_nat L))
               (round64 e (round64 e (round64 e (of_nat A) * of_nat L) + of_nat L))
         = take L (drop (A * L) xs)" by simp
  qed
qed


lemma concat_pages:
  "concat (map (\<lambda>k. take L (drop ((k - 1) * L) xs)) [1..<Suc n]) = take (n * L) xs"
proof (induction n)
  case 0
  show ?case by simp
next
  case (Suc n)
  have "Suc n * L = n * L + L" by simp
  then have "take (Suc n * L) xs = take (n * L) xs @ take L (drop (n * L) xs)"
    by (simp only: take_add)
  then show ?case using Suc by simp
qed

lemma sortNewestFirst_sorted:
  "sorted_wrt (\<lambda>a b. datePosted (pc_post b) \<le> datePosted (pc_post a)) (sortNewestFirst xs)"
proof -
  have "sorted (map (\<lambda>a. - datePosted (pc_post a)) (sortNewestFirst xs))"
    unfolding sortNewestFirst_def by (rule sorted_sort_key)
  then show ?thesis by (simp add: sorted_map)
qed

lemma sortNewestFirst_mset: "mset (sortNewestFirst xs) = mset xs"
  by (simp add: sortNewestFirst_def)

lemma sortNewestFirst_length: "length (sortNewestFirst xs) = length xs"
  by (simp add: sortNewestFirst_def)

text \<open>
  Claim C4, as amended: for positive integers \<open>page\<close> and \<open>limit\<close>, whenever the reads of
  the four platforms return, \<open>getPosts\<close> with platform \<open>all\<close> collects the posts of the four
  results in platform order, each with the connection flag of its platform, and returns
  the posts \<open>(page - 1) * limit ..< page * limit\<close> of that sequence sorted newest first,
  with its length as total. The sorted sequence is a permutation of the collected posts,
  a page has at most \<open>limit\<close> posts, and the pages \<open>1 .. n\<close> of one sequence concatenate
  to it once \<open>n * limit\<close> covers it. The index arithmetic is binary64; the statement uses
  that an array has fewer than \<open>2^32\<close> elements.
\<close>
theorem all_posts_sorted_and_paged:
  assumes "binary64Rounding e"
    and "getPlatformStats e fuel w userId ''youtube'' days = Some (s1, w1)"
    and "getPlatformStats e fuel w1 userId ''instagram'' days = Some (s2, w2)"
    and "getPlatformStats e fuel w2 userId ''twitter'' days = Some (s3, w3)"
    and "getPlatformStats e fuel w3 userId ''facebook'' days = Some (s4, w4)"
    and "allPosts = taggedPosts (getApiKeys (storage w) userId) ''youtube'' s1
                  @ taggedPosts (getApiKeys (storage w) userId) ''instagram'' s2
                  @ taggedPosts (getApiKeys (storage w) userId) ''twitter'' s3
                  @ taggedPosts (getApiKeys (storage w) userId) ''facebook'' s4"
    and "length allPosts < 2 ^ 32"
    and "0 < L" and "0 < pg"
  shows "getPosts e fuel w userId ''all'' days (of_nat pg) (of_nat L)
           = Some (\<lparr>r_posts = take L (drop ((pg - 1) * L) (sortNewestFirst allPosts)),
                    r_total = length allPosts\<rparr>, w4)
       \<and> sorted_wrt (\<lambda>a b. datePosted (pc_post b) \<le> datePosted (pc_post a)) (sortNewestFirst allPosts)
       \<and> mset (sortNewestFirst allPosts) = mset allPosts
       \<and> length (take L (drop ((pg - 1) * L) (sortNewestFirst allPosts))) \<le> L
       \<and> (length allPosts \<le> n * L \<longrightarrow>
            concat (map (\<lambda>k. take L (drop ((k - 1) * L) (sortNewestFirst allPosts))) [1..<Suc n])
              = sortNewestFirst allPosts)"
proof -
  let ?k = "getApiKeys (storage w) userId"
  have g: "gatherPosts e fuel ?k userId days allPlatforms [] w = Some (allPosts, w4)"
    unfolding allPlatforms_def
    by (simp only: gatherPosts_step[OF assms(2)] gatherPosts_step[OF assms(3)]
        gatherPosts_step[OF assms(4)] gatherPosts_step[OF assms(5)] gatherPosts.simps(1)
        assms(6) append_Nil append_assoc)
  have len: "length (sortNewestFirst allPosts) < 2 ^ 32"
    using assms(7) by (simp only: sortNewestFirst_length)
  have "slice (sortNewestFirst allPosts)
          (round64 e (round64 e (of_nat pg - 1) * of_nat L))
          (round64 e (round64 e (round64 e (of_nat pg - 1) * of_nat L) + of_nat L))
        = take L (drop ((pg - 1) * L) (sortNewestFirst allPosts))"
    using assms(1) assms(9) assms(8) len by (rule rounded_page)
  then have a: "getPosts e fuel w userId ''all'' days (of_nat pg) (of_nat L)
           = Some (\<lparr>r_posts = take L (drop ((pg - 1) * L) (sortNewestFirst allPosts)),
                    r_total = length allPosts\<rparr>, w4)"
    using g by (simp add: getPosts_def Let_def sortNewestFirst_length)
  have d: "concat (map (\<lambda>k. take L (drop ((k - 1) * L) (sortNewestFirst allPosts))) [1..<Suc n])
              = sortNewestFirst allPosts" if "length allPosts \<le> n * L"
    using that by (simp only: concat_pages) (simp add: sortNewestFirst_length)
  show ?thesis
    using a d sortNewestFirst_sorted[of allPosts] sortNewestFirst_mset[of allPosts] by simp
qed

lemma demoEnv_binary64: "binary64Rounding demoEnv"
  by (simp add: binary64Rounding_def demoEnv_simps)

lemma seededPosts_length: "length seededPosts = 8"
  by (simp add: seededPosts_def sampleYoutube_def sampleInstagram_def sampleTwitter_def
      sampleFacebook_def)

lemma seededPosts_sorted: "sortNewestFirst seededPosts = seededPosts"
  unfolding sortNewestFirst_def
  by (rule sort_key_id_if_sorted)
     (simp add: seededPosts_def sampleYoutube_def sampleInstagram_def sampleTwitter_def
      sampleFacebook_def)

lemma world1_read:
  "getPlatformStats demoEnv (Suc n) world1 1 p 7
     = Some (socialStats (storage (newMemStorage demoEnv (\<lambda>s. s))) (1, p, 7), world1)"
  by (simp add: getPlatformStats_no_credential world1_credential truthy_def world1_facts
      freshWorld_def)

lemma world1_seededPosts:
  "seededPosts = taggedPosts (getApiKeys (storage world1) 1) ''youtube'' (Some (sampleYoutube (clock demoEnv 0)))
     @ taggedPosts (getApiKeys (storage world1) 1) ''instagram'' (Some (sampleInstagram (clock demoEnv 1)))
     @ taggedPosts (getApiKeys (storage world1) 1) ''twitter'' (Some (sampleTwitter (clock demoEnv 2)))
     @ taggedPosts (getApiKeys (storage world1) 1) ''facebook'' (Some (sampleFacebook (clock demoEnv 3)))"
  by (simp add: getApiKeys_def world1_facts taggedPosts_def hasConnected_def seededPosts_def
      sampleYoutube_def sampleInstagram_def sampleTwitter_def sampleFacebook_def)

lemma world1_gather:
  "gatherPosts demoEnv (Suc n) (getApiKeys (storage world1) 1) 1 7 allPlatforms [] world1
     = Some (seededPosts, world1)"
  unfolding allPlatforms_def
  by (simp only: gatherPosts_step[OF world1_read] seeded7 gatherPosts.simps(1)
      world1_seededPosts append_Nil append_assoc)

theorem all_posts_sorted_and_paged_witness:
  "getPosts demoEnv (Suc 0) world1 1 ''all'' 7 2 3
     = Some (\<lparr>r_posts = take 3 (drop 3 seededPosts), r_total = 8\<rparr>, world1)
   \<and> concat (map (\<lambda>k. take 3 (drop ((k - 1) * 3) seededPosts)) [1..<Suc 3]) = seededPosts"
proof -
  have l: "(0::nat) < 3" and p: "(0::nat) < 2" by simp_all
  have n: "length seededPosts \<le> 3 * 3" "length seededPosts < 2 ^ 32"
    by (simp_all add: seededPosts_length)
  show ?thesis
    using all_posts_sorted_and_paged[OF demoEnv_binary64
        world1_read[of 0 "''youtube''", unfolded seeded7]
        world1_read[of 0 "''instagram''", unfolded seeded7]
        world1_read[of 0 "''twitter''", unfolded seeded7]
        world1_read[of 0 "''facebook''", unfolded seeded7]
        world1_seededPosts n(2) l p, where n = 3] n(1)
    by (simp add: seededPosts_sorted seededPosts_length)
qed

lemma slice_drop_last: "length xs = 8 \<Longrightarrow> slice xs 0 (- 1) = butlast xs"
  by (simp add: slice_def toInteger_def relIndex_def butlast_conv_take ceiling_minus)

lemma worldTw_reads:
  "p \<noteq> ''twitter'' \<Longrightarrow> getPlatformStats demoEnv (Suc n) worldTw 1 p 7
     = Some (socialStats (storage worldTw) (1, p, 7), worldTw)"
  by (rule getPlatformStats_no_credential)
     (simp add: credentialFor_def getApiKeys_def worldTw_facts apiKeyField_def truthy_def)

lemma worldTw_getPosts: "getPosts demoEnv fuel worldTw 1 ''all'' 7 1 10 = None"
proof (cases fuel)
  case 0
  then show ?thesis by (simp add: getPosts_def allPlatforms_def)
next
  case (Suc n)
  have c: "truthy (credentialFor (storage worldTw) 1 ''twitter'')"
    by (simp add: worldTw_credential truthy_def)
  have t: "getPlatformStats demoEnv (Suc n) worldTw 1 ''twitter'' 7 = None"
    by (rule stub_adapter_never_returns[OF c]) simp
  have y: "getPlatformStats demoEnv (Suc n) worldTw 1 ''youtube'' 7
     = Some (socialStats (storage worldTw) (1, ''youtube'', 7), worldTw)"
    and i: "getPlatformStats demoEnv (Suc n) worldTw 1 ''instagram'' 7
     = Some (socialStats (storage worldTw) (1, ''instagram'', 7), worldTw)"
    by (simp_all add: worldTw_reads del: getPlatformStats.simps)
  have "gatherPosts demoEnv (Suc n) (getApiKeys (storage worldTw) 1) 1 7 allPlatforms [] worldTw = None"
    unfolding allPlatforms_def
    by (simp only: gatherPosts_step[OF y] gatherPosts_step[OF i])
       (simp add: t del: getPlatformStats.simps)
  then show ?thesis using Suc by (simp add: getPosts_def)
qed

text \<open>
  Claim C4 as stated fails for \<open>limit = -1\<close>: page 1 then holds seven posts, which is
  more than the limit. It also fails to return anything for a user with a Twitter token
  on file, whatever the bound on the nesting.
\<close>
theorem negative_limit_page_exceeds_limit:
  "getPosts demoEnv (Suc 0) world1 1 ''all'' 7 1 (- 1)
     = Some (\<lparr>r_posts = butlast seededPosts, r_total = 8\<rparr>, world1)
   \<and> length (butlast seededPosts) = 7
   \<and> \<not> (of_nat (length (butlast seededPosts)) \<le> (- 1 :: rat))
   \<and> (\<forall>fuel. getPosts demoEnv fuel worldTw 1 ''all'' 7 1 10 = None)"
  using world1_gather[of 0] worldTw_getPosts
  by (simp add: getPosts_def Let_def seededPosts_sorted seededPosts_length slice_drop_last
      demoEnv_simps)


text \<open>
  Claim C7, as amended: the handlers coerce \<open>userId\<close>, \<open>days\<close>, \<open>page\<close> and \<open>limit\<close>
  one by one with \<open>Number(x) || default\<close>: a parameter that is absent, not numeric or
  zero takes its default (1, 7, 1, 10), every other number is kept as it is, negative and
  fractional ones included. The user lookup, the free-tier check and, when both pass, the
  store call receive exactly these values.
\<close>
theorem query_numbers_coerced_not_validated:
  assumes "userId = (case pq_userId q of None \<Rightarrow> 1 | Some r \<Rightarrow> if r = 0 then 1 else r)"
    and "days = (case pq_days q of None \<Rightarrow> 7 | Some r \<Rightarrow> if r = 0 then 7 else r)"
    and "page = (case pq_page q of None \<Rightarrow> 1 | Some r \<Rightarrow> if r = 0 then 1 else r)"
    and "limit = (case pq_limit q of None \<Rightarrow> 10 | Some r \<Rightarrow> if r = 0 then 10 else r)"
    and "p = (case pq_platform q of None \<Rightarrow> ''all'' | Some n \<Rightarrow> if n = [] then ''all'' else n)"
    and "sUserId = (case q_userId sq of None \<Rightarrow> 1 | Some r \<Rightarrow> if r = 0 then 1 else r)"
    and "sDays = (case q_days sq of None \<Rightarrow> 7 | Some r \<Rightarrow> if r = 0 then 7 else r)"
  shows "get_api_posts e fuel w q =
           (case getUser (storage w) userId of
              None \<Rightarrow> Some ((404, Message ''User not found''), w)
            | Some user \<Rightarrow>
                if \<not> isPro user \<and> 7 < days
                then Some ((403, UpgradeMessage ''Free users can only access 7 days of data'' True), w)
                else (case getPosts e fuel w userId p days page limit of
                        None \<Rightarrow> None
                      | Some (r, w') \<Rightarrow>
                          Some ((200, PostsBody (r_posts r)
                                   \<lparr>pg_page = page, pg_limit = limit, pg_total = r_total r,
                                    pg_totalPages = \<lceil>round64 e (of_nat (r_total r) / limit)\<rceil>\<rparr>), w')))
       \<and> get_api_stats e fuel w sq =
           (case getUser (storage w) sUserId of
              None \<Rightarrow> Some ((404, Message ''User not found''), w)
            | Some user \<Rightarrow>
                if \<not> isPro user \<and> 7 < sDays
                then Some ((403, UpgradeMessage ''Free users can only access 7 days of data'' True), w)
                else (case q_platform sq of
                        None \<Rightarrow> map_option (\<lambda>rw. ((200, AllStatsBody (fst rw)), snd rw))
                                  (getAllPlatformStats e fuel w sUserId sDays)
                      | Some n \<Rightarrow>
                          if n = [] \<or> n = ''all''
                          then map_option (\<lambda>rw. ((200, AllStatsBody (fst rw)), snd rw))
                                 (getAllPlatformStats e fuel w sUserId sDays)
                          else (case getPlatformStats e fuel w sUserId n sDays of
                                  None \<Rightarrow> None
                                | Some (None, w') \<Rightarrow> Some ((404, Message (''No stats found for '' @ n)), w')
                                | Some (Some s, w') \<Rightarrow> Some ((200, StatsBody s), w'))))"
proof -
  have n: "numberOr x d = (case x of None \<Rightarrow> d | Some r \<Rightarrow> if r = 0 then d else r)" for x d
    by (simp add: numberOr_def)
  have pl: "(if truthy (pq_platform q) then (case pq_platform q of None \<Rightarrow> [] | Some n \<Rightarrow> n) else ''all'') = p"
    unfolding assms(5) by (simp add: truthy_def split: option.splits)
  have a: "get_api_posts e fuel w q =
           (case getUser (storage w) userId of
              None \<Rightarrow> Some ((404, Message ''User not found''), w)
            | Some user \<Rightarrow>
                if \<not> isPro user \<and> 7 < days
                then Some ((403, UpgradeMessage ''Free users can only access 7 days of data'' True), w)
                else (case getPosts e fuel w userId p days page limit of
                        None \<Rightarrow> None
                      | Some (r, w') \<Rightarrow>
                          Some ((200, PostsBody (r_posts r)
                                   \<lparr>pg_page = page, pg_limit = limit, pg_total = r_total r,
                                    pg_totalPages = \<lceil>round64 e (of_nat (r_total r) / limit)\<rceil>\<rparr>), w')))"
    unfolding get_api_posts_def Let_def pl n assms(1-4)[symmetric] by (rule refl)
  have b: "get_api_stats e fuel w sq =
           (case getUser (storage w) sUserId of
              None \<Rightarrow> Some ((404, Message ''User not found''), w)
            | Some user \<Rightarrow>
                if \<not> isPro user \<and> 7 < sDays
                then Some ((403, UpgradeMessage ''Free users can only access 7 days of data'' True), w)
                else (case q_platform sq of
                        None \<Rightarrow> map_option (\<lambda>rw. ((200, AllStatsBody (fst rw)), snd rw))
                                  (getAllPlatformStats e fuel w sUserId sDays)
                      | Some n \<Rightarrow>
                          if n = [] \<or> n = ''all''
                          then map_option (\<lambda>rw. ((200, AllStatsBody (fst rw)), snd rw))
                                 (getAllPlatformStats e fuel w sUserId sDays)
                          else (case getPlatformStats e fuel w sUserId n sDays of
                                  None \<Rightarrow> None
                                | Some (None, w') \<Rightarrow> Some ((404, Message (''No stats found for '' @ n)), w')
                                | Some (Some s, w') \<Rightarrow> Some ((200, StatsBody s), w'))))"
    unfolding get_api_stats_def Let_def n assms(6-7)[symmetric]
    by (cases "getAllPlatformStats e fuel w sUserId sDays")
       (auto simp: truthy_def split: option.splits simp del: getPlatformStats.simps)
  show ?thesis using a b by (rule conjI)
qed


lemma world1_miss:
  "getPlatformStats demoEnv (Suc n) world1 1 ''youtube'' (7 / 2) = Some (None, world1)"
  by (simp add: getPlatformStats_no_credential world1_credential truthy_def world1_facts
      freshWorld_def newMemStorage_def initializeSampleData_def setAll_def sampleData_def)

lemma world1_first_page:
  "getPosts demoEnv (Suc 0) world1 1 ''all'' 7 1 10
     = Some (\<lparr>r_posts = seededPosts, r_total = 8\<rparr>, world1)"
  using world1_gather[of 0]
  by (simp add: getPosts_def Let_def seededPosts_sorted seededPosts_length demoEnv_simps
      slice_def toInteger_def relIndex_def)

theorem query_numbers_coerced_not_validated_witness:
  "get_api_posts demoEnv (Suc 0) world1
      \<lparr>pq_userId = None, pq_days = Some 0, pq_platform = None, pq_page = Some 0, pq_limit = None\<rparr>
     = Some ((200, PostsBody seededPosts
                \<lparr>pg_page = 1, pg_limit = 10, pg_total = 8, pg_totalPages = 1\<rparr>), world1)
   \<and> get_api_stats demoEnv (Suc 0) world1
      \<lparr>q_userId = Some 0, q_days = Some (7 / 2), q_platform = Some ''youtube''\<rparr>
     = Some ((404, Message ''No stats found for youtube''), world1)"
proof -
  let ?q = "\<lparr>pq_userId = None, pq_days = Some 0, pq_platform = None, pq_page = Some 0, pq_limit = None\<rparr>"
  let ?sq = "\<lparr>q_userId = Some 0, q_days = Some (7 / 2), q_platform = Some ''youtube''\<rparr>"
  have h: "(1::rat) = (case pq_userId ?q of None \<Rightarrow> 1 | Some r \<Rightarrow> if r = 0 then 1 else r)"
    "(7::rat) = (case pq_days ?q of None \<Rightarrow> 7 | Some r \<Rightarrow> if r = 0 then 7 else r)"
    "(1::rat) = (case pq_page ?q of None \<Rightarrow> 1 | Some r \<Rightarrow> if r = 0 then 1 else r)"
    "(10::rat) = (case pq_limit ?q of None \<Rightarrow> 10 | Some r \<Rightarrow> if r = 0 then 10 else r)"
    "''all'' = (case pq_platform ?q of None \<Rightarrow> ''all'' | Some n \<Rightarrow> if n = [] then ''all'' else n)"
    "(1::rat) = (case q_userId ?sq of None \<Rightarrow> 1 | Some r \<Rightarrow> if r = 0 then 1 else r)"
    "(7 / 2::rat) = (case q_days ?sq of None \<Rightarrow> 7 | Some r \<Rightarrow> if r = 0 then 7 else r)"
    by simp_all
  have c: "\<lceil>(4::rat) / 5\<rceil> = 1" by (simp add: ceiling_eq_iff)
  show ?thesis
    using query_numbers_coerced_not_validated[OF h, where e = demoEnv and fuel = "Suc 0" and w = world1]
      world1_first_page world1_miss[of 0]
    by (simp add: getUser_def world1_facts demoEnv_simps c del: getPlatformStats.simps)
qed

text \<open>
  Claim C7 as stated fails: \<open>limit = -1\<close> is passed to the store, which then returns
  seven of the eight seeded posts, and the response reports \<open>limit = -1\<close> and
  \<open>totalPages = -8\<close>.
\<close>
theorem negative_limit_reaches_store:
  "get_api_posts demoEnv (Suc 0) world1
      \<lparr>pq_userId = Some 1, pq_days = Some 7, pq_platform = None, pq_page = Some 1,
       pq_limit = Some (- 1)\<rparr>
     = Some ((200, PostsBody (butlast seededPosts)
                \<lparr>pg_page = 1, pg_limit = - 1, pg_total = 8, pg_totalPages = - 8\<rparr>), world1)
   \<and> length (butlast seededPosts) = 7"
  using world1_gather[of 0]
  by (simp add: get_api_posts_def numberOr_def getUser_def world1_facts truthy_def
      getPosts_def Let_def seededPosts_sorted seededPosts_length slice_drop_last demoEnv_simps)

text \<open>Both invariants hold in every state the store can reach, and the credential
  endpoint keeps the store within those states.\<close>

lemma usersBelowCounter_createUser:
  assumes "usersBelowCounter (storage w)"
  shows "usersBelowCounter (storage (snd (createUser e w ins)))"
  unfolding usersBelowCounter_def createUser_frame
proof
  fix k assume "k \<in> dom ((users (storage w))(currentUserId (storage w) \<mapsto> fst (createUser e w ins)))"
  then have "k = currentUserId (storage w) \<or> k \<in> dom (users (storage w))" by auto
  then show "k < currentUserId (storage w) + 1"
  proof
    assume "k = currentUserId (storage w)"
    then show ?thesis by simp
  next
    assume "k \<in> dom (users (storage w))"
    then have "k < currentUserId (storage w)"
      using assms unfolding usersBelowCounter_def by blast
    then show ?thesis by linarith
  qed
qed

lemma supportedKeysOnly_updateUser:
  "supportedKeysOnly st \<Longrightarrow> supportedKeysOnly (snd (updateUser st i d))"
  by (simp add: supportedKeysOnly_def updateUser_def Let_def split: option.splits)

lemma supportedKeysOnly_saveApiKeys:
  "supportedKeysOnly st \<Longrightarrow> supportedKeysOnly (snd (saveApiKeys st v))"
  by (simp add: supportedKeysOnly_def saveApiKeys_def Let_def)

lemma supportedKeysOnly_updateApiKeys:
  "supportedKeysOnly st \<Longrightarrow> supportedKeysOnly (snd (updateApiKeys st u d))"
  by (simp add: supportedKeysOnly_def updateApiKeys_def Let_def split: option.splits)

lemma reachable_invariants:
  "reachable e w \<Longrightarrow> usersBelowCounter (storage w) \<and> supportedKeysOnly (storage w)"
proof (induction rule: reachable.induct)
  case (constructed scale30)
  show ?case by (simp add: usersBelowCounter_new supportedKeysOnly_new)
next
  case (created w insertUser)
  then show ?case by (simp add: usersBelowCounter_createUser supportedKeysOnly_createUser)
next
  case (user_updated w i d)
  then show ?case by (simp add: usersBelowCounter_updateUser supportedKeysOnly_updateUser)
next
  case (keys_saved w v)
  then show ?case by (simp add: usersBelowCounter_saveApiKeys supportedKeysOnly_saveApiKeys)
next
  case (keys_updated w u k)
  then show ?case by (simp add: usersBelowCounter_updateApiKeys supportedKeysOnly_updateApiKeys)
next
  case (stats_read w n u p days r w')
  then show ?case using usersBelowCounter_read supportedKeysOnly_read by blast
qed

lemma reachable_post_apikeys:
  "reachable e w \<Longrightarrow> reachable e (snd (post_api_apikeys w b))"
proof (cases b)
  case ZodError
  assume "reachable e w"
  then show ?thesis using ZodError by (simp add: post_api_apikeys_def)
next
  case (Parsed v)
  assume r: "reachable e w"
  show ?thesis
  proof (cases "getApiKeys (storage w) (ik_userId v)")
    case None
    have "reachable e (w\<lparr>storage := snd (saveApiKeys (storage w) v)\<rparr>)" (is "reachable e ?w1")
      using r by (rule keys_saved)
    then have "reachable e (?w1\<lparr>storage := snd (updateUser (storage ?w1) (ik_userId v)
                                  (noUserPatch\<lparr>pu_isFirstLogin := Some False\<rparr>))\<rparr>)"
      by (rule user_updated)
    then show ?thesis
      using Parsed None by (simp add: post_api_apikeys_def case_prod_beta)
  next
    case (Some k)
    have "reachable e (w\<lparr>storage := snd (updateApiKeys (storage w) (ik_userId v) (asApiKeyPatch v))\<rparr>)"
      using r by (rule keys_updated)
    then show ?thesis
      using Parsed Some
      by (cases "fst (updateApiKeys (storage w) (ik_userId v) (asApiKeyPatch v))")
         (simp_all add: post_api_apikeys_def case_prod_beta)
  qed
qed

end
